theory Spec2Isabelle
  imports Main "HOL-Library.Sublist"
begin

section \<open>Python values and exceptions\<close>

text \<open>
  The two scripts \<^verbatim>\<open>search_papers.py\<close> and \<^verbatim>\<open>theory_explorer.py\<close> pass
  dictionaries of dynamically typed values around. The model keeps them dynamic: a parsed
  JSON document and a paper record are both \<open>pyval\<close>s, and every operation of the source
  that can raise on a value of the wrong type returns \<open>exn + 'a\<close>, with \<open>Inl\<close> the
  exception.

  Scope of the model.
  \<^item> A Python \<^verbatim>\<open>str\<close> is a \<open>string\<close>, each \<open>char\<close> read as one code point in the
    range U+0000 to U+00FF; \<open>length\<close> therefore counts what Python's \<^verbatim>\<open>len\<close> and
    slicing count on such strings. Code points above U+00FF are outside the model, except
    in the query and the categories of a request, which are lists of code points.
  \<^item> JSON numbers with a fraction or exponent (Python floats) are outside the model.
  \<^item> The HTTP request, the decoding of the body and the XML or JSON parser are the
    environment: the \<^verbatim>\<open>try\<close> statement of an adapter receives their joint outcome,
    either the exception they raised or the parsed document.
  \<^item> Text printed to standard output is not modelled; a line printed to standard error
    is a value of type \<open>diag\<close>.
\<close>

datatype exn =
    AttributeError
  | TypeError
  | IndexError
  | KeyError string
  | ValueError
  | UnicodeEncodeError
  | TransportError
  | ParseError

text \<open>Sequencing of statements that may raise: the first exception ends the block.\<close>

definition then_do :: "exn + 'a \<Rightarrow> ('a \<Rightarrow> exn + 'b) \<Rightarrow> exn + 'b" where
  "then_do m f = (case m of Inl e \<Rightarrow> Inl e | Inr x \<Rightarrow> f x)"

text \<open>
  A \<^verbatim>\<open>for\<close> loop (or list comprehension) that appends one result per element; an
  exception in the body leaves the loop.
\<close>

fun for_each :: "('a \<Rightarrow> exn + 'b) \<Rightarrow> 'a list \<Rightarrow> exn + 'b list" where
  "for_each f [] = Inr []"
| "for_each f (x # xs) =
     then_do (f x) (\<lambda>y. then_do (for_each f xs) (\<lambda>ys. Inr (y # ys)))"

datatype pyval =
    PNone
  | PBool bool
  | PInt int
  | PStr string
  | PList "pyval list"
  | PDict "(string \<times> pyval) list"

text \<open>A dictionary with string keys, in insertion order; a lookup finds the first entry.\<close>

type_synonym pydict = "(string \<times> pyval) list"

subsection \<open>String methods\<close>

definition BS :: char where
  "BS = CHR 0x5C"

text \<open>\<^verbatim>\<open>str.isspace\<close> on the code points below 256.\<close>

definition isspace :: "char \<Rightarrow> bool" where
  "isspace c \<longleftrightarrow> c \<in> set [CHR 0x09, CHR 0x0A, CHR 0x0B, CHR 0x0C, CHR 0x0D,
     CHR 0x1C, CHR 0x1D, CHR 0x1E, CHR 0x1F, CHR 0x20, CHR 0x85, CHR 0xA0]"

definition strip :: "string \<Rightarrow> string" where
  "strip s = rev (dropWhile isspace (rev (dropWhile isspace s)))"

text \<open>\<^verbatim>\<open>s.split()\<close>: the maximal runs of non-whitespace characters.\<close>

fun split_ws :: "string \<Rightarrow> string \<Rightarrow> string list" where
  "split_ws cur [] = (if cur = [] then [] else [cur])"
| "split_ws cur (c # cs) =
     (if isspace c then (if cur = [] then split_ws [] cs else cur # split_ws [] cs)
      else split_ws (cur @ [c]) cs)"

definition split :: "string \<Rightarrow> string list" where
  "split s = split_ws [] s"

text \<open>\<^verbatim>\<open>s.split(sep)\<close> for a one-character separator: never the empty list.\<close>

fun split_on :: "char \<Rightarrow> string \<Rightarrow> string \<Rightarrow> string list" where
  "split_on sep cur [] = [cur]"
| "split_on sep cur (c # cs) =
     (if c = sep then cur # split_on sep [] cs else split_on sep (cur @ [c]) cs)"

text \<open>
  \<^verbatim>\<open>str.lower\<close> on the code points below 256: A to Z, and the capital letters
  U+00C0 to U+00DE without the multiplication sign U+00D7, move up by 32.
\<close>

definition lower_char :: "char \<Rightarrow> char" where
  "lower_char c =
     (let n = (of_char c :: nat)
      in if (65 \<le> n \<and> n \<le> 90) \<or> (192 \<le> n \<and> n \<le> 222 \<and> n \<noteq> 215)
         then char_of (n + 32) else c)"

definition lower :: "string \<Rightarrow> string" where
  "lower s = map lower_char s"

text \<open>\<^verbatim>\<open>s.replace(old, new)\<close> for a one-character \<^verbatim>\<open>old\<close>.\<close>

definition replace :: "char \<Rightarrow> string \<Rightarrow> string \<Rightarrow> string" where
  "replace old new s = concat (map (\<lambda>c. if c = old then new else [c]) s)"

fun join :: "string \<Rightarrow> string list \<Rightarrow> string" where
  "join sep [] = []"
| "join sep [x] = x"
| "join sep (x # y # ys) = x @ sep @ join sep (y # ys)"

subsection \<open>Conversion to text: \<^verbatim>\<open>str\<close> and \<^verbatim>\<open>repr\<close>\<close>

fun digits :: "nat \<Rightarrow> string" where
  "digits n =
     (if n < 10 then [''0123456789'' ! n] else digits (n div 10) @ [''0123456789'' ! (n mod 10)])"

definition str_int :: "int \<Rightarrow> string" where
  "str_int i = (if i < 0 then CHR ''-'' # digits (nat (- i)) else digits (nat i))"

definition hex_digit :: "nat \<Rightarrow> char" where
  "hex_digit n = ''0123456789abcdef'' ! n"

definition isprintable :: "char \<Rightarrow> bool" where
  "isprintable c =
     (let n = (of_char c :: nat)
      in 32 \<le> n \<and> n \<noteq> 127 \<and> \<not> (128 \<le> n \<and> n \<le> 160) \<and> n \<noteq> 173)"

definition repr_char :: "char \<Rightarrow> char \<Rightarrow> string" where
  "repr_char quote c =
     (if c = quote \<or> c = BS then [BS, c]
      else if c = CHR 0x09 then [BS, CHR ''t'']
      else if c = CHR 0x0A then [BS, CHR ''n'']
      else if c = CHR 0x0D then [BS, CHR ''r'']
      else if isprintable c then [c]
      else [BS, CHR ''x'', hex_digit (of_char c div 16), hex_digit (of_char c mod 16)])"

definition repr_str :: "string \<Rightarrow> string" where
  "repr_str s =
     (let quote = (if CHR 0x27 \<in> set s \<and> CHR 0x22 \<notin> set s then CHR 0x22 else CHR 0x27)
      in quote # concat (map (repr_char quote) s) @ [quote])"

fun repr :: "pyval \<Rightarrow> string" where
  "repr PNone = ''None''"
| "repr (PBool b) = (if b then ''True'' else ''False'')"
| "repr (PInt i) = str_int i"
| "repr (PStr s) = repr_str s"
| "repr (PList xs) = ''['' @ join '', '' (map repr xs) @ '']''"
| "repr (PDict kvs) =
     ''{'' @ join '', '' (map (\<lambda>(k, v). repr_str k @ '': '' @ repr v) kvs) @ ''}''"

text \<open>What an f-string field \<^verbatim>\<open>{v}\<close> and \<^verbatim>\<open>str.format\<close> insert for a value.\<close>

fun str :: "pyval \<Rightarrow> string" where
  "str (PStr s) = s"
| "str v = repr v"

subsection \<open>Operations on dynamically typed values\<close>

fun truthy :: "pyval \<Rightarrow> bool" where
  "truthy PNone = False"
| "truthy (PBool b) = b"
| "truthy (PInt i) = (i \<noteq> 0)"
| "truthy (PStr s) = (s \<noteq> [])"
| "truthy (PList xs) = (xs \<noteq> [])"
| "truthy (PDict kvs) = (kvs \<noteq> [])"

text \<open>\<^verbatim>\<open>d.get(k, default)\<close> on a dictionary.\<close>

definition dict_get :: "pydict \<Rightarrow> string \<Rightarrow> pyval \<Rightarrow> pyval" where
  "dict_get d k dflt = (case map_of d k of None \<Rightarrow> dflt | Some v \<Rightarrow> v)"

text \<open>\<^verbatim>\<open>v.get(k, default)\<close> on any value: only a dictionary has the method.\<close>

fun py_get :: "pyval \<Rightarrow> string \<Rightarrow> pyval \<Rightarrow> exn + pyval" where
  "py_get (PDict d) k dflt = Inr (dict_get d k dflt)"
| "py_get v k dflt = Inl AttributeError"

text \<open>
  \<^verbatim>\<open>v[:n]\<close>. A dictionary refuses a slice with \<^verbatim>\<open>TypeError\<close> up to Python 3.11
  (\<^verbatim>\<open>KeyError\<close> from 3.12 on).
\<close>

fun slice_to :: "nat \<Rightarrow> pyval \<Rightarrow> exn + pyval" where
  "slice_to n (PStr s) = Inr (PStr (take n s))"
| "slice_to n (PList xs) = Inr (PList (take n xs))"
| "slice_to n v = Inl TypeError"

text \<open>The elements a \<^verbatim>\<open>for\<close> loop over the value visits.\<close>

fun iter :: "pyval \<Rightarrow> exn + pyval list" where
  "iter (PList xs) = Inr xs"
| "iter (PStr s) = Inr (map (\<lambda>c. PStr [c]) s)"
| "iter (PDict kvs) = Inr (map (\<lambda>k. PStr k) (rev (remdups (rev (map fst kvs)))))"
| "iter v = Inl TypeError"

text \<open>\<^verbatim>\<open>v[0]\<close>; the keys of a dictionary of the model are strings, never \<^verbatim>\<open>0\<close>.\<close>

fun index0 :: "pyval \<Rightarrow> exn + pyval" where
  "index0 (PList []) = Inl IndexError"
| "index0 (PList (x # xs)) = Inr x"
| "index0 (PStr []) = Inl IndexError"
| "index0 (PStr (c # cs)) = Inr (PStr [c])"
| "index0 (PDict kvs) = Inl (KeyError ''0'')"
| "index0 v = Inl TypeError"

text \<open>\<^verbatim>\<open>xs[0]\<close> and \<^verbatim>\<open>xs[-1]\<close> on a list.\<close>

fun first_item :: "'a list \<Rightarrow> exn + 'a" where
  "first_item [] = Inl IndexError"
| "first_item (x # xs) = Inr x"

definition last_item :: "'a list \<Rightarrow> exn + 'a" where
  "last_item xs = (if xs = [] then Inl IndexError else Inr (last xs))"

text \<open>A string method called on a value: only a \<^verbatim>\<open>str\<close> has it.\<close>

fun as_str :: "pyval \<Rightarrow> exn + string" where
  "as_str (PStr s) = Inr s"
| "as_str v = Inl AttributeError"

text \<open>\<^verbatim>\<open>sep.join(v)\<close>: the value must be iterable and every element a \<^verbatim>\<open>str\<close>.\<close>

fun join_item :: "pyval \<Rightarrow> exn + string" where
  "join_item (PStr s) = Inr s"
| "join_item v = Inl TypeError"

definition py_join :: "string \<Rightarrow> pyval \<Rightarrow> exn + string" where
  "py_join sep v =
     then_do (iter v) (\<lambda>items. then_do (for_each join_item items) (\<lambda>ss. Inr (join sep ss)))"

section \<open>The arXiv adapter\<close>

text \<open>
  An element of the parsed Atom feed, as \<^verbatim>\<open>xml.etree.ElementTree\<close> holds it: the
  tag with its namespace in braces, the attributes, the text before the first child
  (\<^verbatim>\<open>None\<close> for an element without text) and the children in document order.
\<close>

datatype elem =
  Elem (elem_tag: string) (elem_attrib: "(string \<times> string) list")
       (elem_text: "string option") (elem_children: "elem list")

text \<open>The name \<^verbatim>\<open>atom:x\<close> under the namespace map \<^verbatim>\<open>ns\<close> of line 64.\<close>

definition atom :: "string \<Rightarrow> string" where
  "atom name = ''{http://www.w3.org/2005/Atom}'' @ name"

definition findall :: "elem \<Rightarrow> string \<Rightarrow> elem list" where
  "findall e t = filter (\<lambda>c. elem_tag c = t) (elem_children e)"

definition find_elem :: "elem \<Rightarrow> string \<Rightarrow> elem option" where
  "find_elem e t = (case findall e t of [] \<Rightarrow> None | c # cs \<Rightarrow> Some c)"

text \<open>\<^verbatim>\<open>e.find(t).text\<close>: \<^verbatim>\<open>find\<close> gives \<^verbatim>\<open>None\<close> when no child has the tag.\<close>

definition find_text :: "elem \<Rightarrow> string \<Rightarrow> exn + string option" where
  "find_text e t = (case find_elem e t of None \<Rightarrow> Inl AttributeError | Some c \<Rightarrow> Inr (elem_text c))"

text \<open>A string method, respectively a slice, applied to a text that may be \<^verbatim>\<open>None\<close>.\<close>

definition method_of :: "string option \<Rightarrow> exn + string" where
  "method_of t = (case t of None \<Rightarrow> Inl AttributeError | Some s \<Rightarrow> Inr s)"

definition subscript_of :: "string option \<Rightarrow> exn + string" where
  "subscript_of t = (case t of None \<Rightarrow> Inl TypeError | Some s \<Rightarrow> Inr s)"

definition opt_str :: "string option \<Rightarrow> pyval" where
  "opt_str t = (case t of None \<Rightarrow> PNone | Some s \<Rightarrow> PStr s)"

text \<open>\<^verbatim>\<open>cat.get('term')\<close> on an element.\<close>

definition elem_get :: "elem \<Rightarrow> string \<Rightarrow> pyval" where
  "elem_get e k = opt_str (map_of (elem_attrib e) k)"

text \<open>The body of the loop over the entries, \<^verbatim>\<open>search_papers.py\<close> lines 68 to 96.\<close>

definition arxiv_entry :: "elem \<Rightarrow> exn + pydict" where
  "arxiv_entry entry =
     then_do (find_text entry (atom ''title'')) (\<lambda>title_text.
     then_do (method_of title_text) (\<lambda>t.
     let title = replace (CHR 0x0A) '' '' (strip t) in
     then_do (find_text entry (atom ''summary'')) (\<lambda>summary_text.
     then_do (method_of summary_text) (\<lambda>s.
     let summary = take 500 (strip s) in
     then_do (for_each (\<lambda>author. then_do (find_text author (atom ''name'')) (\<lambda>name. Inr (opt_str name)))
                (findall entry (atom ''author''))) (\<lambda>authors.
     then_do (find_text entry (atom ''id'')) (\<lambda>id_text.
     then_do (method_of id_text) (\<lambda>i.
     then_do (last_item (split_on (CHR ''/'') [] i)) (\<lambda>arxiv_id.
     let pdf_link = ''https://arxiv.org/pdf/'' @ arxiv_id;
         categories = map (\<lambda>cat. elem_get cat ''term'') (findall entry (atom ''category'')) in
     then_do (find_text entry (atom ''published'')) (\<lambda>published_text.
     then_do (subscript_of published_text) (\<lambda>p.
     let published = take 10 p in
     Inr [(''title'', PStr title),
          (''authors'', PList (take 3 authors)),
          (''abstract'', PStr summary),
          (''arxiv_id'', PStr arxiv_id),
          (''url'', PStr (''https://arxiv.org/abs/'' @ arxiv_id)),
          (''pdf'', PStr pdf_link),
          (''categories'', PList (take 3 categories)),
          (''date'', PStr published),
          (''source'', PStr ''arXiv'')]))))))))))"

text \<open>A line on standard error, by the statement that prints it.\<close>

datatype diag =
    ArxivSearchError exn
  | SemanticScholarSearchError exn
  | OpenRouterKeyNotSet
  | PerplexitySearchError exn

text \<open>
  The \<^verbatim>\<open>try\<close> block of \<^verbatim>\<open>search_arxiv\<close> (lines 59 to 98); \<open>response\<close> is the
  outcome of \<^verbatim>\<open>urlopen\<close>, \<^verbatim>\<open>read\<close>, \<^verbatim>\<open>decode\<close> and \<^verbatim>\<open>ET.fromstring\<close>.
\<close>

definition arxiv_try :: "exn + elem \<Rightarrow> exn + pydict list" where
  "arxiv_try response =
     then_do response (\<lambda>root. for_each arxiv_entry (findall root (atom ''entry'')))"

text \<open>
  The \<^verbatim>\<open>try\<close> statement of \<^verbatim>\<open>search_arxiv\<close>, lines 58 to 102: the papers returned
  and the lines printed to standard error. The function as a whole, with the code before
  the \<^verbatim>\<open>try\<close> statement, is \<open>search_arxiv_call\<close> below.
\<close>

definition search_arxiv :: "exn + elem \<Rightarrow> pydict list \<times> diag list" where
  "search_arxiv response =
     (case arxiv_try response of
        Inr papers \<Rightarrow> (papers, [])
      | Inl e \<Rightarrow> ([], [ArxivSearchError e]))"

section \<open>The Semantic Scholar adapter\<close>

text \<open>The body of the loop over \<^verbatim>\<open>data.get('data', [])\<close>, lines 132 to 143.\<close>

definition s2_paper :: "pyval \<Rightarrow> exn + pydict" where
  "s2_paper paper =
     then_do (py_get paper ''authors'' (PList [])) (\<lambda>authors_value.
     then_do (slice_to 3 authors_value) (\<lambda>first3.
     then_do (iter first3) (\<lambda>items.
     then_do (for_each (\<lambda>a. py_get a ''name'' (PStr '''')) items) (\<lambda>authors.
     then_do (py_get paper ''title'' (PStr '''')) (\<lambda>title.
     then_do (py_get paper ''abstract'' PNone) (\<lambda>abstract_value.
     then_do (slice_to 500 (if truthy abstract_value then abstract_value else PStr '''')) (\<lambda>abstract.
     then_do (py_get paper ''year'' PNone) (\<lambda>year.
     then_do (py_get paper ''citationCount'' (PInt 0)) (\<lambda>citations.
     then_do (py_get paper ''url'' (PStr '''')) (\<lambda>url.
     then_do (py_get paper ''openAccessPdf'' (PDict [])) (\<lambda>open_access.
     then_do (py_get open_access ''url'' (PStr '''')) (\<lambda>pdf.
     Inr [(''title'', title),
          (''authors'', PList authors),
          (''abstract'', abstract),
          (''year'', year),
          (''citations'', citations),
          (''url'', url),
          (''pdf'', pdf),
          (''source'', PStr ''Semantic Scholar'')]))))))))))))"

text \<open>
  The \<^verbatim>\<open>try\<close> block of \<^verbatim>\<open>search_semantic_scholar\<close> (lines 126 to 145);
  \<open>response\<close> is the outcome of the request and of \<^verbatim>\<open>json.loads\<close>.
\<close>

definition s2_try :: "exn + pyval \<Rightarrow> exn + pydict list" where
  "s2_try response =
     then_do response (\<lambda>data.
     then_do (py_get data ''data'' (PList [])) (\<lambda>entries.
     then_do (iter entries) (\<lambda>papers. for_each s2_paper papers)))"

text \<open>
  The \<^verbatim>\<open>try\<close> statement of \<^verbatim>\<open>search_semantic_scholar\<close>, lines 125 to 149; the
  function as a whole is \<open>search_semantic_scholar_call\<close> below.
\<close>

definition search_semantic_scholar :: "exn + pyval \<Rightarrow> pydict list \<times> diag list" where
  "search_semantic_scholar response =
     (case s2_try response of
        Inr papers \<Rightarrow> (papers, [])
      | Inl e \<Rightarrow> ([], [SemanticScholarSearchError e]))"

section \<open>The requests of the two adapters\<close>

text \<open>
  The code of \<^verbatim>\<open>search_arxiv\<close> (lines 39 to 56) and of \<^verbatim>\<open>search_semantic_scholar\<close>
  (lines 111 to 123) that runs before the \<^verbatim>\<open>try\<close> statement and builds the request.
  The query and the categories come from the command line and may hold any code point, also
  a lone surrogate (Python decodes a byte of \<^verbatim>\<open>argv\<close> that is not UTF-8 to one of U+DC80
  to U+DCFF); such text is a list of code points.
\<close>

type_synonym ustr = "nat list"

definition utext :: "string \<Rightarrow> ustr" where
  "utext s = map of_char s"

definition surrogate :: "nat \<Rightarrow> bool" where
  "surrogate c \<longleftrightarrow> 0xD800 \<le> c \<and> c \<le> 0xDFFF"

text \<open>\<^verbatim>\<open>s.encode('utf-8', 'strict')\<close>: the bytes of each code point; a surrogate raises.\<close>

definition utf8_char :: "nat \<Rightarrow> exn + nat list" where
  "utf8_char c =
     (if c < 0x80 then Inr [c]
      else if c < 0x800 then Inr [0xC0 + c div 64, 0x80 + c mod 64]
      else if surrogate c then Inl UnicodeEncodeError
      else if c < 0x10000 then
        Inr [0xE0 + c div 4096, 0x80 + c div 64 mod 64, 0x80 + c mod 64]
      else
        Inr [0xF0 + c div 262144, 0x80 + c div 4096 mod 64, 0x80 + c div 64 mod 64,
             0x80 + c mod 64])"

definition utf8 :: "ustr \<Rightarrow> exn + nat list" where
  "utf8 s = then_do (for_each utf8_char s) (\<lambda>bs. Inr (concat bs))"

text \<open>
  \<^verbatim>\<open>urllib.parse.quote_plus(s)\<close>: the UTF-8 bytes of the text, a letter, digit or one of
  \<^verbatim>\<open>_.-~\<close> as it is, a space as \<^verbatim>\<open>+\<close>, any other byte as \<^verbatim>\<open>%XX\<close>.
\<close>

definition always_safe :: "nat \<Rightarrow> bool" where
  "always_safe b \<longleftrightarrow> b \<in> set (map of_char
     ''ABCDEFGHIJKLMNOPQRSTUVWXYZabcdefghijklmnopqrstuvwxyz0123456789_.-~'')"

definition quote_byte :: "nat \<Rightarrow> string" where
  "quote_byte b =
     (if always_safe b then [char_of b]
      else if b = 0x20 then ''+''
      else [CHR ''%'', ''0123456789ABCDEF'' ! (b div 16), ''0123456789ABCDEF'' ! (b mod 16)])"

definition quote_plus :: "ustr \<Rightarrow> exn + string" where
  "quote_plus s = then_do (utf8 s) (\<lambda>bs. Inr (concat (map quote_byte bs)))"

text \<open>\<^verbatim>\<open>urllib.parse.urlencode(params)\<close> for a dictionary with text values.\<close>

definition urlencode :: "(string \<times> ustr) list \<Rightarrow> exn + string" where
  "urlencode params =
     then_do (for_each (\<lambda>(k, v).
                then_do (quote_plus (utext k)) (\<lambda>qk.
                then_do (quote_plus v) (\<lambda>qv. Inr (qk @ ''='' @ qv)))) params)
       (\<lambda>l. Inr (join ''&'' l))"

fun ujoin :: "ustr \<Rightarrow> ustr list \<Rightarrow> ustr" where
  "ujoin sep [] = []"
| "ujoin sep [x] = x"
| "ujoin sep (x # y # ys) = x @ sep @ ujoin sep (y # ys)"

text \<open>
  Lines 39 to 56 of \<^verbatim>\<open>search_arxiv\<close>: the URL, or the exception of
  \<^verbatim>\<open>urlencode\<close>. \<open>categories\<close> is \<open>None\<close> for the default \<^verbatim>\<open>None\<close>.
\<close>

definition arxiv_url :: "ustr \<Rightarrow> int \<Rightarrow> ustr list option \<Rightarrow> exn + string" where
  "arxiv_url query max_results categories =
     (let base_url = ''http://export.arxiv.org/api/query'';
          cat_filter =
            (case categories of
               None \<Rightarrow> []
             | Some cs \<Rightarrow>
                 if cs = [] then []
                 else utext '' AND ('' @ ujoin (utext '' OR '') (map (\<lambda>c. utext ''cat:'' @ c) cs)
                      @ utext '')'');
          search_query = utext ''all:'' @ query @ cat_filter
      in then_do (urlencode [(''search_query'', search_query),
                             (''start'', utext (str_int 0)),
                             (''max_results'', utext (str_int max_results)),
                             (''sortBy'', utext ''relevance''),
                             (''sortOrder'', utext ''descending'')])
           (\<lambda>params. Inr (base_url @ ''?'' @ params)))"

text \<open>
  \<^verbatim>\<open>search_arxiv(query, max_results, categories)\<close> as a whole: the URL is built, then
  the \<^verbatim>\<open>try\<close> statement runs on what the network and the parser give for that URL.
  \<open>Inl\<close> is an exception that leaves the function.
\<close>

definition search_arxiv_call ::
  "(string \<Rightarrow> exn + elem) \<Rightarrow> ustr \<Rightarrow> int \<Rightarrow> ustr list option
     \<Rightarrow> exn + (pydict list \<times> diag list)" where
  "search_arxiv_call urlopen query max_results categories =
     then_do (arxiv_url query max_results categories) (\<lambda>url. Inr (search_arxiv (urlopen url)))"

text \<open>Lines 111 to 123 of \<^verbatim>\<open>search_semantic_scholar\<close>: the URL and the headers.\<close>

definition s2_url :: "ustr \<Rightarrow> int \<Rightarrow> exn + string" where
  "s2_url query max_results =
     (let base_url = ''https://api.semanticscholar.org/graph/v1/paper/search''
      in then_do (urlencode [(''query'', query),
                             (''limit'', utext (str_int max_results)),
                             (''fields'',
                              utext ''title,authors,abstract,year,citationCount,url,openAccessPdf'')])
           (\<lambda>params. Inr (base_url @ ''?'' @ params)))"

definition SEMANTIC_SCHOLAR_KEY :: "(string \<rightharpoonup> string) \<Rightarrow> string" where
  "SEMANTIC_SCHOLAR_KEY environ =
     (case environ ''SEMANTIC_SCHOLAR_KEY'' of None \<Rightarrow> '''' | Some v \<Rightarrow> v)"

definition s2_headers :: "(string \<rightharpoonup> string) \<Rightarrow> (string \<times> string) list" where
  "s2_headers environ =
     (if SEMANTIC_SCHOLAR_KEY environ \<noteq> [] then [(''x-api-key'', SEMANTIC_SCHOLAR_KEY environ)]
      else [])"

text \<open>\<^verbatim>\<open>search_semantic_scholar(query, max_results)\<close> as a whole.\<close>

definition search_semantic_scholar_call ::
  "(string \<rightharpoonup> string) \<Rightarrow> (string \<Rightarrow> (string \<times> string) list \<Rightarrow> exn + pyval) \<Rightarrow> ustr \<Rightarrow> int
     \<Rightarrow> exn + (pydict list \<times> diag list)" where
  "search_semantic_scholar_call environ urlopen query max_results =
     then_do (s2_url query max_results) (\<lambda>url.
     Inr (search_semantic_scholar (urlopen url (s2_headers environ))))"

section \<open>The Perplexity adapter\<close>

text \<open>
  The module constant of line 28,
  \<^verbatim>\<open>OPENROUTER_API_KEY = os.environ.get("OPENROUTER_API_KEY", "")\<close>, as a function of
  the process environment.
\<close>

definition OPENROUTER_API_KEY :: "(string \<rightharpoonup> string) \<Rightarrow> string" where
  "OPENROUTER_API_KEY environ =
     (case environ ''OPENROUTER_API_KEY'' of None \<Rightarrow> '''' | Some v \<Rightarrow> v)"

text \<open>The request that \<^verbatim>\<open>search_perplexity\<close> builds in lines 162 to 185.\<close>

record chat_request =
  req_url :: string
  req_authorization :: string
  req_model :: string
  req_content :: string

definition perplexity_prompt :: "string \<Rightarrow> string" where
  "perplexity_prompt query =
     ''Search for recent academic papers and research on: '' @ query @ ''\<newline>'' @
     ''\<newline>'' @
     ''Focus on:\<newline>'' @
     ''1. Key papers from the last 3 years (2022-2025)\<newline>'' @
     ''2. Seminal/foundational papers in this area\<newline>'' @
     ''3. Authors and research groups working on this topic\<newline>'' @
     ''4. Main theoretical results and methods\<newline>'' @
     ''\<newline>'' @
     ''Provide specific paper titles, authors, and years when possible.''"

definition perplexity_request :: "string \<Rightarrow> string \<Rightarrow> chat_request" where
  "perplexity_request key query =
     \<lparr> req_url = ''https://openrouter.ai/api/v1/chat/completions'',
       req_authorization = ''Bearer '' @ key,
       req_model = ''perplexity/sonar-pro'',
       req_content = perplexity_prompt query \<rparr>"

text \<open>
  The \<^verbatim>\<open>try\<close> block of lines 178 to 195; \<open>response\<close> is the outcome of the request
  and of \<^verbatim>\<open>json.loads\<close>.
\<close>

definition perplexity_try :: "exn + pyval \<Rightarrow> exn + pydict" where
  "perplexity_try response =
     then_do response (\<lambda>result.
     then_do (py_get result ''choices'' (PList [PDict []])) (\<lambda>choices.
     then_do (index0 choices) (\<lambda>choice.
     then_do (py_get choice ''message'' (PDict [])) (\<lambda>message.
     then_do (py_get message ''content'' (PStr '''')) (\<lambda>content.
     Inr [(''summary'', content), (''source'', PStr ''Perplexity Sonar Pro'')])))))"

text \<open>
  \<^verbatim>\<open>search_perplexity\<close>: the dictionary returned, the lines printed to standard error
  and the requests sent. \<open>response\<close> is what the endpoint answers if it is asked.
\<close>

definition search_perplexity ::
  "string \<Rightarrow> exn + pyval \<Rightarrow> string \<Rightarrow> pydict \<times> diag list \<times> chat_request list" where
  "search_perplexity key response query =
     (if key = [] then ([], [OpenRouterKeyNotSet], [])
      else
        (case perplexity_try response of
           Inr result \<Rightarrow> (result, [], [perplexity_request key query])
         | Inl e \<Rightarrow> ([], [PerplexitySearchError e], [perplexity_request key query])))"

section \<open>BibTeX generation\<close>

text \<open>The three parts of the citation key, \<^verbatim>\<open>search_papers.py\<close> lines 212 to 214.\<close>

definition first_author :: "pydict \<Rightarrow> exn + string" where
  "first_author paper =
     then_do (index0 (dict_get paper ''authors'' (PList [PStr ''Unknown'']))) (\<lambda>a.
     then_do (as_str a) (\<lambda>name. last_item (split name)))"

definition year_of :: "pydict \<Rightarrow> exn + pyval" where
  "year_of paper =
     (let y = dict_get paper ''year'' PNone in
      if truthy y then Inr y
      else then_do (slice_to 4 (dict_get paper ''date'' (PStr ''''))) (\<lambda>d.
           Inr (if truthy d then d else PStr ''2024'')))"

definition title_word :: "pydict \<Rightarrow> exn + string" where
  "title_word paper =
     then_do (as_str (dict_get paper ''title'' (PStr ''paper''))) (\<lambda>title.
     then_do (first_item (split title)) (\<lambda>w. Inr (lower w)))"

text \<open>The body of the loop of \<^verbatim>\<open>generate_bibtex\<close>, lines 211 to 226: one entry.\<close>

definition bibtex_entry :: "pydict \<Rightarrow> exn + string" where
  "bibtex_entry paper =
     then_do (first_author paper) (\<lambda>fa.
     then_do (year_of paper) (\<lambda>year.
     then_do (title_word paper) (\<lambda>tw.
     let key = lower fa @ str year @ tw in
     then_do (py_join '' and '' (dict_get paper ''authors'' (PList [PStr ''Unknown'']))) (\<lambda>authors_str.
     Inr (''@article{'' @ key @ '',\<newline>'' @
          ''    title = {'' @ str (dict_get paper ''title'' (PStr ''Unknown Title'')) @ ''},\<newline>'' @
          ''    author = {'' @ authors_str @ ''},\<newline>'' @
          ''    year = {'' @ str year @ ''},\<newline>'' @
          ''    url = {'' @ str (dict_get paper ''url'' (PStr '''')) @ ''},\<newline>'' @
          ''    note = {Source: '' @ str (dict_get paper ''source'' (PStr ''Unknown'')) @ ''}\<newline>'' @
          ''}'')))))"

definition generate_bibtex :: "pydict list \<Rightarrow> exn + string" where
  "generate_bibtex papers =
     then_do (for_each bibtex_entry papers) (\<lambda>entries. Inr (join ''\<newline>\<newline>'' entries))"

section \<open>The search script\<close>

text \<open>
  \<^verbatim>\<open>main\<close> of \<^verbatim>\<open>search_papers.py\<close>, lines 248 to 300, without its printing to
  standard output: the aggregated papers, the Perplexity result, the lines on standard
  error, and the text of the BibTeX file when \<^verbatim>\<open>--output\<close> is given (an exception of
  \<^verbatim>\<open>generate_bibtex\<close> is not caught and ends the script). The two responses are what
  the network and the parser give once the requests are built: the script is modelled for
  a query that \<^verbatim>\<open>urlencode\<close> can encode, where \<open>search_arxiv_call\<close> and
  \<open>search_semantic_scholar_call\<close> are \<open>search_arxiv\<close> and \<open>search_semantic_scholar\<close> of the
  responses; for any other query the script ends with \<^verbatim>\<open>UnicodeEncodeError\<close> at its first
  adapter.
\<close>

record search_run =
  all_papers :: "pydict list"
  perplexity_result :: pydict
  run_stderr :: "diag list"
  bibtex_written :: "(exn + string) option"

definition search_papers_main ::
  "(string \<rightharpoonup> string) \<Rightarrow> exn + elem \<Rightarrow> exn + pyval \<Rightarrow> exn + pyval \<Rightarrow> string \<Rightarrow> bool
     \<Rightarrow> search_run" where
  "search_papers_main environ arxiv_response s2_response perplexity_response query output =
     (let papers0 = [];
          (arxiv_papers, err1) = search_arxiv arxiv_response;
          papers1 = papers0 @ arxiv_papers;
          (ss_papers, err2) = search_semantic_scholar s2_response;
          papers2 = papers1 @ ss_papers;
          (result, err3, sent) =
             search_perplexity (OPENROUTER_API_KEY environ) perplexity_response query
      in \<lparr> all_papers = papers2,
           perplexity_result = result,
           run_stderr = err1 @ err2 @ err3,
           bibtex_written = (if output then Some (generate_bibtex papers2) else None) \<rparr>)"

section \<open>The theory explorer\<close>

subsection \<open>\<^verbatim>\<open>str.format\<close>\<close>

text \<open>
  \<^verbatim>\<open>template.format(**kwargs)\<close>, read left to right as Python does: \<^verbatim>\<open>{{\<close> and
  \<^verbatim>\<open>}}\<close> stand for one brace, \<^verbatim>\<open>{name}\<close> is replaced by the text of the keyword
  argument of that name, a lone \<^verbatim>\<open>}\<close> or an unclosed field is a \<^verbatim>\<open>ValueError\<close>.
  Whatever stands between the braces of a field is the name looked up: a name that is no
  keyword argument raises \<^verbatim>\<open>KeyError\<close>, an empty or numeric name asks for a positional
  argument, of which there are none, and raises \<^verbatim>\<open>IndexError\<close>. Fields with a
  conversion, a format specification, an attribute or an index (the characters
  \<^verbatim>\<open>! : . [\<close> inside the braces) are not modelled; neither template of the script has
  one.
\<close>

definition format_field :: "pydict \<Rightarrow> string \<Rightarrow> exn + string" where
  "format_field kwargs name =
     (if list_all (\<lambda>c. c \<in> set ''0123456789'') name then Inl IndexError
      else (case map_of kwargs name of None \<Rightarrow> Inl (KeyError name) | Some v \<Rightarrow> Inr (str v)))"

fun format_from :: "pydict \<Rightarrow> string option \<Rightarrow> string \<Rightarrow> exn + string" where
  "format_from kwargs None [] = Inr []"
| "format_from kwargs (Some name) [] = Inl ValueError"
| "format_from kwargs None (c # cs) =
     (if c = CHR ''{'' then
        (case cs of
           [] \<Rightarrow> Inl ValueError
         | d # ds \<Rightarrow>
             if d = CHR ''{'' then then_do (format_from kwargs None ds) (\<lambda>r. Inr (CHR ''{'' # r))
             else format_from kwargs (Some []) cs)
      else if c = CHR ''}'' then
        (case cs of
           [] \<Rightarrow> Inl ValueError
         | d # ds \<Rightarrow>
             if d = CHR ''}'' then then_do (format_from kwargs None ds) (\<lambda>r. Inr (CHR ''}'' # r))
             else Inl ValueError)
      else then_do (format_from kwargs None cs) (\<lambda>r. Inr (c # r)))"
| "format_from kwargs (Some name) (c # cs) =
     (if c = CHR ''}'' then
        then_do (format_field kwargs name) (\<lambda>v.
        then_do (format_from kwargs None cs) (\<lambda>r. Inr (v @ r)))
      else format_from kwargs (Some (name @ [c])) cs)"

definition format :: "string \<Rightarrow> pydict \<Rightarrow> exn + string" where
  "format t kwargs = format_from kwargs None t"

subsection \<open>The string constants of the script\<close>

text \<open>The prompt template of \<^verbatim>\<open>theory_explorer.py\<close>, lines 32 to 63.\<close>

definition THEORY_ANALYSIS_PROMPT :: string where
  \<open>THEORY_ANALYSIS_PROMPT =
     ''You are a theoretical machine learning researcher. Analyze the following research problem and provide a comprehensive theoretical framework.\<newline>'' @
     ''\<newline>'' @
     ''Research Problem: {problem}\<newline>'' @
     ''\<newline>'' @
     ''Provide analysis in the following structure:\<newline>'' @
     ''\<newline>'' @
     ''1. **Problem Formulation**\<newline>'' @
     ''   - Mathematical model\<newline>'' @
     ''   - Key assumptions (A1, A2, A3...)\<newline>'' @
     ''   - Loss function definition\<newline>'' @
     ''\<newline>'' @
     ''2. **Identifiability Analysis**\<newline>'' @
     ''   - Under what conditions is the solution unique?\<newline>'' @
     ''   - What are the symmetries/degeneracies?\<newline>'' @
     ''   - Coercivity conditions\<newline>'' @
     ''\<newline>'' @
     ''3. **Convergence Analysis**\<newline>'' @
     ''   - Consistency: Does estimator converge to truth?\<newline>'' @
     ''   - Rate: How fast? (parametric n^{-1/2} or nonparametric n^{-s/(2s+d)})\<newline>'' @
     ''   - Dependencies: On dimension d, smoothness s, sample size n\<newline>'' @
     ''\<newline>'' @
     ''4. **Lower Bounds**\<newline>'' @
     ''   - Information-theoretic limits (Fano, Le Cam)\<newline>'' @
     ''   - Fisher information / CRLB\<newline>'' @
     ''   - Minimax optimality\<newline>'' @
     ''\<newline>'' @
     ''5. **Key References**\<newline>'' @
     ''   - Foundational papers\<newline>'' @
     ''   - Recent advances\<newline>'' @
     ''   - Related problems\<newline>'' @
     ''\<newline>'' @
     ''Be precise with mathematical notation. Use LaTeX formatting.''\<close>

text \<open>The document template of \<^verbatim>\<open>generate_theory_tex\<close>, lines 74 to 132 (a raw string).\<close>

definition template :: string where
  \<open>template =
     ''%% ============================================================================\<newline>'' @
     ''%% Theoretical Analysis - Auto-generated\<newline>'' @
     ''%% Author: Viska Wei\<newline>'' @
     ''%% Generated: {date}\<newline>'' @
     ''%% ============================================================================\<newline>'' @
     ''\<newline>'' @
     BS # ''documentclass[11pt]{{article}}\<newline>'' @
     BS # ''usepackage{{amsmath,amssymb,amsthm}}\<newline>'' @
     BS # ''usepackage[margin=1in]{{geometry}}\<newline>'' @
     BS # ''usepackage{{hyperref}}\<newline>'' @
     BS # ''usepackage{{tcolorbox}}\<newline>'' @
     ''\<newline>'' @
     BS # ''newtheorem{{theorem}}{{Theorem}}[section]\<newline>'' @
     BS # ''newtheorem{{proposition}}[theorem]{{Proposition}}\<newline>'' @
     BS # ''newtheorem{{lemma}}[theorem]{{Lemma}}\<newline>'' @
     BS # ''newtheorem{{definition}}[theorem]{{Definition}}\<newline>'' @
     BS # ''newtheorem{{remark}}[theorem]{{Remark}}\<newline>'' @
     BS # ''newtheorem{{assumption}}{{Assumption}}\<newline>'' @
     ''\<newline>'' @
     BS # ''title{{'' @ BS # ''textbf{{Theoretical Analysis}}'' @ BS # BS # ''[0.5em]\<newline>'' @
     BS # ''large {problem}}}\<newline>'' @
     BS # ''author{{Viska Wei}}\<newline>'' @
     BS # ''date{{'' @ BS # ''today}}\<newline>'' @
     ''\<newline>'' @
     BS # ''begin{{document}}\<newline>'' @
     BS # ''maketitle\<newline>'' @
     ''\<newline>'' @
     BS # ''begin{{abstract}}\<newline>'' @
     ''This document presents a comprehensive theoretical analysis for the research problem:\<newline>'' @
     BS # ''emph{{{problem}}}.\<newline>'' @
     ''We establish identifiability conditions, convergence rates, and information-theoretic lower bounds.\<newline>'' @
     BS # ''end{{abstract}}\<newline>'' @
     ''\<newline>'' @
     BS # ''tableofcontents\<newline>'' @
     BS # ''newpage\<newline>'' @
     ''\<newline>'' @
     ''%% ============================================================================\<newline>'' @
     ''%% AI-Generated Analysis\<newline>'' @
     ''%% ============================================================================\<newline>'' @
     ''\<newline>'' @
     ''{analysis}\<newline>'' @
     ''\<newline>'' @
     ''%% ============================================================================\<newline>'' @
     ''%% Related Work\<newline>'' @
     ''%% ============================================================================\<newline>'' @
     ''\<newline>'' @
     BS # ''section{{Related Work}}\<newline>'' @
     ''\<newline>'' @
     ''The following papers are relevant to this theoretical analysis:\<newline>'' @
     ''\<newline>'' @
     BS # ''begin{{enumerate}}\<newline>'' @
     ''{paper_list}\<newline>'' @
     BS # ''end{{enumerate}}\<newline>'' @
     ''\<newline>'' @
     BS # ''bibliographystyle{{plain}}\<newline>'' @
     BS # ''bibliography{{related_papers}}\<newline>'' @
     ''\<newline>'' @
     BS # ''end{{document}}\<newline>''\<close>

text \<open>
  The template as \<^verbatim>\<open>str.format\<close> fills it: every doubled brace is one brace and the
  fields \<^verbatim>\<open>{date}\<close>, \<^verbatim>\<open>{problem}\<close> (twice), \<^verbatim>\<open>{analysis}\<close> and
  \<^verbatim>\<open>{paper_list}\<close> are replaced by the four texts. That \<open>format\<close> computes this text
  from \<open>template\<close> is lemma \<open>format_template\<close>.
\<close>

definition filled_template :: "string \<Rightarrow> string \<Rightarrow> string \<Rightarrow> string \<Rightarrow> string" where
  \<open>filled_template today problem analysis items =
     ''%% ============================================================================\<newline>'' @
     ''%% Theoretical Analysis - Auto-generated\<newline>'' @
     ''%% Author: Viska Wei\<newline>'' @
     ''%% Generated: '' @
     today @
     ''\<newline>'' @
     ''%% ============================================================================\<newline>'' @
     ''\<newline>'' @
     BS # ''documentclass[11pt]{article}\<newline>'' @
     BS # ''usepackage{amsmath,amssymb,amsthm}\<newline>'' @
     BS # ''usepackage[margin=1in]{geometry}\<newline>'' @
     BS # ''usepackage{hyperref}\<newline>'' @
     BS # ''usepackage{tcolorbox}\<newline>'' @
     ''\<newline>'' @
     BS # ''newtheorem{theorem}{Theorem}[section]\<newline>'' @
     BS # ''newtheorem{proposition}[theorem]{Proposition}\<newline>'' @
     BS # ''newtheorem{lemma}[theorem]{Lemma}\<newline>'' @
     BS # ''newtheorem{definition}[theorem]{Definition}\<newline>'' @
     BS # ''newtheorem{remark}[theorem]{Remark}\<newline>'' @
     BS # ''newtheorem{assumption}{Assumption}\<newline>'' @
     ''\<newline>'' @
     BS # ''title{'' @ BS # ''textbf{Theoretical Analysis}'' @ BS # BS # ''[0.5em]\<newline>'' @
     BS # ''large '' @
     problem @
     ''}\<newline>'' @
     BS # ''author{Viska Wei}\<newline>'' @
     BS # ''date{'' @ BS # ''today}\<newline>'' @
     ''\<newline>'' @
     BS # ''begin{document}\<newline>'' @
     BS # ''maketitle\<newline>'' @
     ''\<newline>'' @
     BS # ''begin{abstract}\<newline>'' @
     ''This document presents a comprehensive theoretical analysis for the research problem:\<newline>'' @
     BS # ''emph{'' @
     problem @
     ''}.\<newline>'' @
     ''We establish identifiability conditions, convergence rates, and information-theoretic lower bounds.\<newline>'' @
     BS # ''end{abstract}\<newline>'' @
     ''\<newline>'' @
     BS # ''tableofcontents\<newline>'' @
     BS # ''newpage\<newline>'' @
     ''\<newline>'' @
     ''%% ============================================================================\<newline>'' @
     ''%% AI-Generated Analysis\<newline>'' @
     ''%% ============================================================================\<newline>'' @
     ''\<newline>'' @
     analysis @
     ''\<newline>'' @
     ''\<newline>'' @
     ''%% ============================================================================\<newline>'' @
     ''%% Related Work\<newline>'' @
     ''%% ============================================================================\<newline>'' @
     ''\<newline>'' @
     BS # ''section{Related Work}\<newline>'' @
     ''\<newline>'' @
     ''The following papers are relevant to this theoretical analysis:\<newline>'' @
     ''\<newline>'' @
     BS # ''begin{enumerate}\<newline>'' @
     items @
     ''\<newline>'' @
     BS # ''end{enumerate}\<newline>'' @
     ''\<newline>'' @
     BS # ''bibliographystyle{plain}\<newline>'' @
     BS # ''bibliography{related_papers}\<newline>'' @
     ''\<newline>'' @
     BS # ''end{document}\<newline>''\<close>

text \<open>The constant that \<^verbatim>\<open>compute_fisher_info_template\<close> returns, lines 171 to 201.\<close>

definition compute_fisher_info_template :: string where
  \<open>compute_fisher_info_template =
     ''\<newline>'' @
     BS # ''section{Fisher Information and CRLB}\<newline>'' @
     ''\<newline>'' @
     BS # ''subsection{Fisher Information Matrix}\<newline>'' @
     ''\<newline>'' @
     ''For a parametric model $p(X; '' @ BS # ''theta)$, the Fisher information is:\<newline>'' @
     BS # ''begin{equation}\<newline>'' @
     ''I('' @ BS # ''theta) = '' @ BS # ''mathbb{E}'' @ BS # ''left['' @ BS # ''nabla_'' @ BS # ''theta '' @ BS # ''log p(X; '' @ BS # ''theta) '' @ BS # ''nabla_'' @ BS # ''theta '' @ BS # ''log p(X; '' @ BS # ''theta)^'' @ BS # ''top'' @ BS # ''right]\<newline>'' @
     BS # ''end{equation}\<newline>'' @
     ''\<newline>'' @
     BS # ''subsection{Cram'' @ CHR 0xE9 # ''r-Rao Lower Bound}\<newline>'' @
     ''\<newline>'' @
     ''For any unbiased estimator $'' @ BS # ''hat{'' @ BS # ''theta}$:\<newline>'' @
     BS # ''begin{equation}\<newline>'' @
     BS # ''mathrm{Var}('' @ BS # ''hat{'' @ BS # ''theta}) '' @ BS # ''geq I('' @ BS # ''theta)^{-1}\<newline>'' @
     BS # ''end{equation}\<newline>'' @
     ''\<newline>'' @
     BS # ''subsection{Practical Computation}\<newline>'' @
     ''\<newline>'' @
     ''For the specific problem at hand, the Fisher information can be computed as:\<newline>'' @
     ''\<newline>'' @
     BS # ''begin{tcolorbox}[colback=yellow!5!white,colframe=yellow!75!black,title=TODO: Problem-Specific Fisher]\<newline>'' @
     ''Replace with actual Fisher information computation for your problem:\<newline>'' @
     BS # ''begin{itemize}\<newline>'' @
     ''    '' @ BS # ''item Model: $p(X; '' @ BS # ''theta) = ...$\<newline>'' @
     ''    '' @ BS # ''item Score: $'' @ BS # ''nabla_'' @ BS # ''theta '' @ BS # ''log p = ...$\<newline>'' @
     ''    '' @ BS # ''item Fisher: $I('' @ BS # ''theta) = ...$\<newline>'' @
     ''    '' @ BS # ''item CRLB: $'' @ BS # ''mathrm{Var}('' @ BS # ''hat{'' @ BS # ''theta}) '' @ BS # ''geq ...$\<newline>'' @
     BS # ''end{itemize}\<newline>'' @
     BS # ''end{tcolorbox}\<newline>''\<close>

text \<open>The f-string of lines 248 to 262 up to its one field.\<close>

definition fallback_head :: string where
  \<open>fallback_head =
     ''\<newline>'' @
     BS # ''section{Problem Formulation}\<newline>'' @
     ''\<newline>'' @
     ''% TODO: Fill in problem-specific formulation\<newline>'' @
     ''\<newline>'' @
     BS # ''section{Identifiability}\<newline>'' @
     ''\<newline>'' @
     ''% TODO: Establish identifiability conditions\<newline>'' @
     ''\<newline>'' @
     BS # ''section{Convergence Analysis}\<newline>'' @
     ''\<newline>'' @
     ''% TODO: Derive convergence rates\<newline>'' @
     ''\<newline>''\<close>

subsection \<open>The document\<close>

text \<open>
  One item of the Related Work list, the body of the loop of lines 136 to 140:
  \<^verbatim>\<open>title\<close> must be a \<^verbatim>\<open>str\<close> for \<^verbatim>\<open>replace\<close>, the first two authors must be
  \<^verbatim>\<open>str\<close>s for \<^verbatim>\<open>join\<close>.
\<close>

definition paper_item :: "pydict \<Rightarrow> exn + string" where
  "paper_item p =
     then_do (as_str (dict_get p ''title'' (PStr ''Unknown''))) (\<lambda>t.
     let title = replace (CHR ''&'') [BS, CHR ''&''] (replace (CHR ''_'') [BS, CHR ''_''] t) in
     then_do (slice_to 2 (dict_get p ''authors'' (PList [PStr ''Unknown'']))) (\<lambda>first2.
     then_do (py_join '', '' first2) (\<lambda>authors.
     let url = dict_get p ''url'' (PStr '''') in
     Inr (''    '' @ BS # ''item '' @ BS # ''textbf{'' @ title @ ''} by '' @ authors @
          ''. '' @ BS # ''url{'' @ str url @ ''}\<newline>''))))"

definition paper_list :: "pydict list \<Rightarrow> exn + string" where
  "paper_list papers = then_do (for_each paper_item (take 10 papers)) (\<lambda>items. Inr (concat items))"

text \<open>
  The text written to \<^verbatim>\<open>theoretical_analysis.tex\<close>, lines 134 to 148; \<open>today\<close> is
  \<^verbatim>\<open>datetime.now().strftime("%Y-%m-%d")\<close>.
\<close>

definition document_content :: "string \<Rightarrow> string \<Rightarrow> pyval \<Rightarrow> pydict list \<Rightarrow> exn + string" where
  "document_content today problem analysis papers =
     then_do (paper_list papers) (\<lambda>items.
     format template
       [(''date'', PStr today),
        (''problem'', PStr (replace (CHR ''_'') [BS, CHR ''_''] problem)),
        (''analysis'', analysis),
        (''paper_list'', PStr items)])"

text \<open>
  \<^verbatim>\<open>Path(dir) / name\<close> of \<^verbatim>\<open>pathlib\<close> on a POSIX system, as text, for a file name
  without a slash: empty components and \<^verbatim>\<open>.\<close> components of the directory are dropped, a
  leading slash is kept, and exactly two leading slashes are kept as two.
\<close>

definition path_root :: "string \<Rightarrow> string" where
  "path_root dir =
     (if take 2 dir = ''//'' \<and> take 3 dir \<noteq> ''///'' then ''//''
      else if take 1 dir = ''/'' then ''/''
      else '''')"

definition path_parts :: "string \<Rightarrow> string list" where
  "path_parts dir = filter (\<lambda>p. p \<noteq> [] \<and> p \<noteq> ''.'') (split_on (CHR ''/'') [] dir)"

definition path_child :: "string \<Rightarrow> string \<Rightarrow> string" where
  "path_child dir name = path_root dir @ join ''/'' (path_parts dir @ [name])"

text \<open>
  \<^verbatim>\<open>generate_theory_tex\<close>: the files written, in order, as pairs of path and text, and
  the path returned or the exception raised. The document is on disk, and the
  bibliography file is open and empty, before \<^verbatim>\<open>generate_bibtex\<close> runs. Errors of the
  file system are not modelled.
\<close>

definition generate_theory_tex ::
  "string \<Rightarrow> string \<Rightarrow> pyval \<Rightarrow> pydict list \<Rightarrow> string \<Rightarrow> (string \<times> string) list \<times> (exn + string)" where
  "generate_theory_tex today problem analysis papers output_dir =
     (case document_content today problem analysis papers of
        Inl e \<Rightarrow> ([], Inl e)
      | Inr content \<Rightarrow>
          (let tex_path = path_child output_dir ''theoretical_analysis.tex'';
               bib_path = path_child output_dir ''related_papers.bib''
           in case generate_bibtex papers of
                Inl e \<Rightarrow> ([(tex_path, content), (bib_path, [])], Inl e)
              | Inr bib \<Rightarrow> ([(tex_path, content), (bib_path, bib)], Inr tex_path)))"

text \<open>The analysis that \<^verbatim>\<open>main\<close> falls back to, the f-string of lines 248 to 262.\<close>

definition fallback_analysis :: string where
  "fallback_analysis = fallback_head @ compute_fisher_info_template @ ''\<newline>''"

text \<open>
  \<^verbatim>\<open>main\<close> of \<^verbatim>\<open>theory_explorer.py\<close>, lines 224 to 272, without its printing to
  standard output. The prompt is formatted (line 240) before \<^verbatim>\<open>search_perplexity\<close> is
  called; an exception there, or in \<^verbatim>\<open>generate_theory_tex\<close>, is not caught. As in the
  search script, the run is modelled for a problem statement that \<^verbatim>\<open>urlencode\<close> can
  encode, so that \<^verbatim>\<open>search_arxiv\<close> reaches its \<^verbatim>\<open>try\<close> statement.
\<close>

record explorer_run =
  files :: "(string \<times> string) list"
  outcome :: "exn + string option"
  explorer_stderr :: "diag list"
  requests :: "chat_request list"

definition theory_explorer_main ::
  "(string \<rightharpoonup> string) \<Rightarrow> exn + elem \<Rightarrow> exn + pyval \<Rightarrow> string \<Rightarrow> string \<Rightarrow> string
     \<Rightarrow> string option \<Rightarrow> bool \<Rightarrow> explorer_run" where
  "theory_explorer_main environ arxiv_response perplexity_response today problem topic output
       search_only =
     (let (arxiv_papers, err1) = search_arxiv arxiv_response in
      if search_only then
        \<lparr> files = [], outcome = Inr None, explorer_stderr = err1, requests = [] \<rparr>
      else
        (case format THEORY_ANALYSIS_PROMPT [(''problem'', PStr problem)] of
           Inl e \<Rightarrow> \<lparr> files = [], outcome = Inl e, explorer_stderr = err1, requests = [] \<rparr>
         | Inr prompt \<Rightarrow>
             (let (result, err2, sent) =
                    search_perplexity (OPENROUTER_API_KEY environ) perplexity_response prompt;
                  summary = dict_get result ''summary'' (PStr '''');
                  analysis = (if \<not> truthy summary then PStr fallback_analysis else summary);
                  output_dir = (case output of
                                  Some dir \<Rightarrow>
                                    if dir \<noteq> [] then dir
                                    else ''experiments/'' @ topic @ ''/theory''
                                | None \<Rightarrow> ''experiments/'' @ topic @ ''/theory'');
                  (written, r) = generate_theory_tex today problem analysis arxiv_papers output_dir
              in \<lparr> files = written,
                   outcome = (case r of Inl e \<Rightarrow> Inl e | Inr tex_path \<Rightarrow> Inr (Some tex_path)),
                   explorer_stderr = err1 @ err2,
                   requests = sent \<rparr>)))"

section \<open>Example inputs\<close>

text \<open>
  A feed entry with four authors (one name element without text) and four categories (one
  without the \<^verbatim>\<open>term\<close> attribute), the same entry without its \<^verbatim>\<open>summary\<close> element,
  and a feed of given entries.
\<close>

definition example_entry :: elem where
  "example_entry = Elem (atom ''entry'') [] None
     [Elem (atom ''id'') [] (Some ''http://arxiv.org/abs/2101.00001v1'') [],
      Elem (atom ''published'') [] (Some ''2021-01-01T00:00:00Z'') [],
      Elem (atom ''title'') [] (Some ''  Sparse\<newline>regression '') [],
      Elem (atom ''summary'') [] (Some ''  We study a_b & c. '') [],
      Elem (atom ''author'') [] None [Elem (atom ''name'') [] (Some ''Ada Lovelace'') []],
      Elem (atom ''author'') [] None [Elem (atom ''name'') [] (Some ''Alan Turing'') []],
      Elem (atom ''author'') [] None [Elem (atom ''name'') [] None []],
      Elem (atom ''author'') [] None [Elem (atom ''name'') [] (Some ''Emmy Noether'') []],
      Elem (atom ''category'') [(''term'', ''stat.ML'')] None [],
      Elem (atom ''category'') [(''term'', ''math.ST'')] None [],
      Elem (atom ''category'') [] None [],
      Elem (atom ''category'') [(''term'', ''cs.LG'')] None []]"

definition example_entry_without_summary :: elem where
  "example_entry_without_summary = Elem (atom ''entry'') [] None
     [Elem (atom ''id'') [] (Some ''http://arxiv.org/abs/2101.00002v1'') [],
      Elem (atom ''published'') [] (Some ''2021-01-02T00:00:00Z'') [],
      Elem (atom ''title'') [] (Some ''Dense regression'') [],
      Elem (atom ''author'') [] None [Elem (atom ''name'') [] (Some ''Ada Lovelace'') []]]"

definition example_feed :: "elem list \<Rightarrow> elem" where
  "example_feed entries = Elem (atom ''feed'') [] None
     (Elem (atom ''title'') [] (Some ''ArXiv Query'') [] # entries)"

text \<open>The paper that \<open>example_entry\<close> is parsed to (lemma \<open>example_entry_parsed\<close>).\<close>

definition example_arxiv_paper :: pydict where
  "example_arxiv_paper =
     [(''title'', PStr ''Sparse regression''),
      (''authors'', PList [PStr ''Ada Lovelace'', PStr ''Alan Turing'', PNone]),
      (''abstract'', PStr ''We study a_b & c.''),
      (''arxiv_id'', PStr ''2101.00001v1''),
      (''url'', PStr ''https://arxiv.org/abs/2101.00001v1''),
      (''pdf'', PStr ''https://arxiv.org/pdf/2101.00001v1''),
      (''categories'', PList [PStr ''stat.ML'', PStr ''math.ST'', PNone]),
      (''date'', PStr ''2021-01-01''),
      (''source'', PStr ''arXiv'')]"

text \<open>
  A Semantic Scholar response with one record that has four authors and neither a title
  nor an abstract, and the paper it is mapped to (lemma \<open>example_s2_parsed\<close>).
\<close>

definition example_s2_response :: pyval where
  "example_s2_response =
     PDict [(''total'', PInt 1),
            (''data'', PList
               [PDict [(''paperId'', PStr ''649def34''),
                       (''authors'', PList [PDict [(''name'', PStr ''Ada Lovelace'')],
                                            PDict [(''name'', PStr ''Alan Turing'')],
                                            PDict [(''authorId'', PStr ''7'')],
                                            PDict [(''name'', PStr ''Emmy Noether'')]]),
                       (''abstract'', PNone),
                       (''year'', PInt 2021)]])]"

definition example_s2_paper :: pydict where
  "example_s2_paper =
     [(''title'', PStr ''''),
      (''authors'', PList [PStr ''Ada Lovelace'', PStr ''Alan Turing'', PStr '''']),
      (''abstract'', PStr ''''),
      (''year'', PInt 2021),
      (''citations'', PInt 0),
      (''url'', PStr ''''),
      (''pdf'', PStr ''''),
      (''source'', PStr ''Semantic Scholar'')]"

text \<open>What the network answers in the examples, whatever the URL.\<close>

definition example_urlopen_xml :: "string \<Rightarrow> exn + elem" where
  "example_urlopen_xml url = Inr (example_feed [example_entry])"

definition example_urlopen_json :: "string \<Rightarrow> (string \<times> string) list \<Rightarrow> exn + pyval" where
  "example_urlopen_json url headers = Inr example_s2_response"

definition example_environ :: "string \<rightharpoonup> string" where
  "example_environ = Map.empty"

section \<open>Basic facts about sequencing and loops\<close>

lemma then_do_simps [simp]: "then_do (Inl e) f = Inl e" "then_do (Inr x) f = f x"
  by (simp_all add: then_do_def)

lemma then_do_Inr_iff: "then_do m f = Inr y \<longleftrightarrow> (\<exists>x. m = Inr x \<and> f x = Inr y)"
  by (cases m) simp_all

lemma for_each_Inr_all2: "for_each f xs = Inr ys \<Longrightarrow> list_all2 (\<lambda>x y. f x = Inr y) xs ys"
proof (induction xs arbitrary: ys)
  case Nil
  then show ?case by simp
next
  case (Cons x xs)
  then show ?case by (auto simp: then_do_Inr_iff)
qed

lemma for_each_all2_Inr: "list_all2 (\<lambda>x y. f x = Inr y) xs ys \<Longrightarrow> for_each f xs = Inr ys"
  by (induction xs ys rule: list_all2_induct) simp_all

lemma for_each_Inr_length: "for_each f xs = Inr ys \<Longrightarrow> length ys = length xs"
  by (drule for_each_Inr_all2) (simp add: list_all2_lengthD)

lemma for_each_Inr_member:
  "for_each f xs = Inr ys \<Longrightarrow> y \<in> set ys \<Longrightarrow> \<exists>x \<in> set xs. f x = Inr y"
proof (induction xs arbitrary: ys)
  case Nil
  then show ?case by simp
next
  case (Cons a xs)
  then show ?case by (auto simp: then_do_Inr_iff)
qed

lemma for_each_Inl_first:
  "for_each f xs = Inl e \<Longrightarrow> \<exists>x \<in> set xs. f x = Inl e"
proof (induction xs)
  case Nil
  then show ?case by simp
next
  case (Cons x xs)
  then show ?case
    by (cases "f x"; cases "for_each f xs") auto
qed

lemma for_each_member_Inl:
  "x \<in> set xs \<Longrightarrow> f x = Inl e \<Longrightarrow> \<exists>e'. for_each f xs = Inl e'"
proof (induction xs)
  case Nil
  then show ?case by simp
next
  case (Cons a xs)
  then show ?case
    by (cases "f a"; cases "for_each f xs") auto
qed

section \<open>Aggregation\<close>

text \<open>
  Claim C4. For every outcome of the two requests (hence for every query and per-source
  limit), the papers that \<^verbatim>\<open>main\<close> of the search script aggregates are the papers of
  \<^verbatim>\<open>search_arxiv\<close> followed by the papers of \<^verbatim>\<open>search_semantic_scholar\<close>, each
  in its own order, with nothing removed and no record changed.
\<close>

theorem aggregate_is_concatenation:
  "all_papers (search_papers_main environ arxiv_response s2_response perplexity_response query output)
     = fst (search_arxiv arxiv_response) @ fst (search_semantic_scholar s2_response)"
  by (simp add: search_papers_main_def Let_def split: prod.splits)

section \<open>The missing credential\<close>

text \<open>
  Claim C8. When the environment has no \<^verbatim>\<open>OPENROUTER_API_KEY\<close>,
  \<^verbatim>\<open>search_perplexity\<close> sends no request, prints the diagnostic and returns the empty
  dictionary; the run of the search script keeps the papers of the other two adapters and
  their diagnostics.
\<close>

theorem missing_key_skips_perplexity:
  assumes "environ ''OPENROUTER_API_KEY'' = None"
  shows "search_perplexity (OPENROUTER_API_KEY environ) response query = ([], [OpenRouterKeyNotSet], [])
    \<and> perplexity_result (search_papers_main environ ar sr response query output) = []
    \<and> all_papers (search_papers_main environ ar sr response query output)
        = fst (search_arxiv ar) @ fst (search_semantic_scholar sr)
    \<and> run_stderr (search_papers_main environ ar sr response query output)
        = snd (search_arxiv ar) @ snd (search_semantic_scholar sr) @ [OpenRouterKeyNotSet]"
  using assms
  by (simp add: search_papers_main_def search_perplexity_def OPENROUTER_API_KEY_def Let_def
      split: prod.splits)

theorem missing_key_skips_perplexity_witness:
  "search_perplexity (OPENROUTER_API_KEY Map.empty) (Inl TransportError) ''sparse regression''
     = ([], [OpenRouterKeyNotSet], [])"
  using missing_key_skips_perplexity [of Map.empty "Inl TransportError" "''sparse regression''"]
  by simp

section \<open>What the adapters return\<close>

lemma py_get_Inr_iff: "py_get v k d = Inr x \<longleftrightarrow> (\<exists>kvs. v = PDict kvs \<and> x = dict_get kvs k d)"
  by (cases v) auto

lemma slice_to_Inr_iff:
  "slice_to n v = Inr x \<longleftrightarrow>
     (\<exists>s. v = PStr s \<and> x = PStr (take n s)) \<or> (\<exists>l. v = PList l \<and> x = PList (take n l))"
  by (cases v) auto

lemma iter_slice_length:
  "slice_to n v = Inr x \<Longrightarrow> iter x = Inr items \<Longrightarrow> length items \<le> n"
  by (auto simp: slice_to_Inr_iff)

lemma arxiv_entry_Inr:
  assumes "arxiv_entry entry = Inr p"
  shows "\<exists>title authors summary arxiv_id categories published.
           p = [(''title'', PStr title),
                (''authors'', PList (take 3 authors)),
                (''abstract'', PStr (take 500 summary)),
                (''arxiv_id'', PStr arxiv_id),
                (''url'', PStr (''https://arxiv.org/abs/'' @ arxiv_id)),
                (''pdf'', PStr (''https://arxiv.org/pdf/'' @ arxiv_id)),
                (''categories'', PList (take 3 categories)),
                (''date'', PStr (take 10 published)),
                (''source'', PStr ''arXiv'')]"
  using assms unfolding arxiv_entry_def Let_def then_do_Inr_iff
  by blast

lemma s2_paper_Inr:
  assumes "s2_paper v = Inr p"
  shows "\<exists>d authors abstract pdf.
           v = PDict d
         \<and> p = [(''title'', dict_get d ''title'' (PStr '''')),
                (''authors'', PList authors),
                (''abstract'', abstract),
                (''year'', dict_get d ''year'' PNone),
                (''citations'', dict_get d ''citationCount'' (PInt 0)),
                (''url'', dict_get d ''url'' (PStr '''')),
                (''pdf'', pdf),
                (''source'', PStr ''Semantic Scholar'')]
         \<and> length authors \<le> 3
         \<and> ((\<exists>s. abstract = PStr s \<and> length s \<le> 500) \<or> (\<exists>l. abstract = PList l \<and> length l \<le> 500))"
proof -
  from assms obtain av first3 items authors title ab abstract year cit url oa pdf where
    a: "py_get v ''authors'' (PList []) = Inr av"
    and s: "slice_to 3 av = Inr first3"
    and i: "iter first3 = Inr items"
    and f: "for_each (\<lambda>a. py_get a ''name'' (PStr '''')) items = Inr authors"
    and t: "py_get v ''title'' (PStr '''') = Inr title"
    and b: "py_get v ''abstract'' PNone = Inr ab"
    and sl: "slice_to 500 (if truthy ab then ab else PStr '''') = Inr abstract"
    and y: "py_get v ''year'' PNone = Inr year"
    and c: "py_get v ''citationCount'' (PInt 0) = Inr cit"
    and u: "py_get v ''url'' (PStr '''') = Inr url"
    and o: "py_get v ''openAccessPdf'' (PDict []) = Inr oa"
    and pd: "py_get oa ''url'' (PStr '''') = Inr pdf"
    and p: "p = [(''title'', title), (''authors'', PList authors), (''abstract'', abstract),
                 (''year'', year), (''citations'', cit), (''url'', url), (''pdf'', pdf),
                 (''source'', PStr ''Semantic Scholar'')]"
    unfolding s2_paper_def then_do_Inr_iff by blast
  from a obtain d where d: "v = PDict d" by (auto simp: py_get_Inr_iff)
  have len: "length authors \<le> 3"
    using iter_slice_length [OF s i] for_each_Inr_length [OF f] by simp
  have ab: "(\<exists>s. abstract = PStr s \<and> length s \<le> 500) \<or> (\<exists>l. abstract = PList l \<and> length l \<le> 500)"
    using sl by (auto simp: slice_to_Inr_iff split: if_splits)
  from d t y c u p len ab show ?thesis by auto
qed

lemma search_arxiv_papers:
  "p \<in> set (fst (search_arxiv response)) \<Longrightarrow> \<exists>entry. arxiv_entry entry = Inr p"
  by (cases response)
     (auto simp: search_arxiv_def arxiv_try_def split: sum.splits dest: for_each_Inr_member)

lemma search_s2_papers:
  "p \<in> set (fst (search_semantic_scholar response)) \<Longrightarrow> \<exists>v. s2_paper v = Inr p"
  by (cases response)
     (auto simp: search_semantic_scholar_def s2_try_def then_do_Inr_iff split: sum.splits
           dest: for_each_Inr_member)

lemma example_entry_parsed: "arxiv_entry example_entry = Inr example_arxiv_paper"
  by (simp add: arxiv_entry_def example_entry_def example_arxiv_paper_def atom_def findall_def
      find_text_def find_elem_def method_of_def subscript_of_def opt_str_def elem_get_def
      strip_def isspace_def replace_def last_item_def Let_def)

lemma example_s2_parsed:
  "search_semantic_scholar (Inr example_s2_response) = ([example_s2_paper], [])"
  by (simp add: search_semantic_scholar_def s2_try_def s2_paper_def example_s2_response_def
      example_s2_paper_def dict_get_def)

lemma example_entry_without_summary_fails:
  "arxiv_entry example_entry_without_summary = Inl AttributeError"
  by (simp add: arxiv_entry_def example_entry_without_summary_def atom_def findall_def
      find_text_def find_elem_def method_of_def strip_def isspace_def replace_def Let_def)

lemma example_feed_entries: "findall (example_feed entries) (atom ''entry'')
   = filter (\<lambda>c. elem_tag c = atom ''entry'') entries"
  by (simp add: example_feed_def findall_def atom_def)

lemma example_tags [simp]:
  "elem_tag example_entry = atom ''entry''"
  "elem_tag example_entry_without_summary = atom ''entry''"
  by (simp_all add: example_entry_def example_entry_without_summary_def)

lemma example_feed_one:
  "search_arxiv (Inr (example_feed [example_entry])) = ([example_arxiv_paper], [])"
  by (simp add: search_arxiv_def arxiv_try_def example_feed_entries example_entry_parsed)

lemma example_feed_two:
  "search_arxiv (Inr (example_feed [example_entry, example_entry_without_summary]))
     = ([], [ArxivSearchError AttributeError])"
  by (simp add: search_arxiv_def arxiv_try_def example_feed_entries example_entry_parsed
      example_entry_without_summary_fails)

lemma arxiv_entry_title:
  assumes "arxiv_entry entry = Inr p"
  shows "\<exists>t. find_text entry (atom ''title'') = Inr (Some t)
           \<and> map_of p ''title'' = Some (PStr (replace (CHR 0x0A) '' '' (strip t)))"
proof -
  from assms obtain tt t rest where
    1: "find_text entry (atom ''title'') = Inr tt" and 2: "method_of tt = Inr t"
    and 3: "p = (''title'', PStr (replace (CHR 0x0A) '' '' (strip t))) # rest"
    unfolding arxiv_entry_def Let_def then_do_Inr_iff by blast
  from 2 have "tt = Some t" by (simp add: method_of_def split: option.splits)
  with 1 3 show ?thesis by simp
qed

section \<open>Errors inside an adapter\<close>

lemma for_each_ok: "(\<forall>x \<in> set xs. \<exists>y. f x = Inr y) \<Longrightarrow> \<exists>ys. for_each f xs = Inr ys"
  by (induction xs) auto

lemma utf8_char_ok: "\<not> surrogate c \<Longrightarrow> \<exists>bs. utf8_char c = Inr bs"
  by (simp add: utf8_char_def)

lemma utf8_ok: "list_all (\<lambda>c. \<not> surrogate c) s \<Longrightarrow> \<exists>bs. utf8 s = Inr bs"
proof -
  assume "list_all (\<lambda>c. \<not> surrogate c) s"
  then have "\<forall>c \<in> set s. \<exists>bs. utf8_char c = Inr bs"
    by (simp add: list_all_iff utf8_char_ok)
  then obtain bss where "for_each utf8_char s = Inr bss"
    using for_each_ok [of s utf8_char] by blast
  then show ?thesis by (simp add: utf8_def)
qed

lemma quote_plus_ok: "list_all (\<lambda>c. \<not> surrogate c) s \<Longrightarrow> \<exists>r. quote_plus s = Inr r"
  using utf8_ok [of s] by (auto simp: quote_plus_def)

lemma utext_no_surrogate: "list_all (\<lambda>c. \<not> surrogate c) (utext s)"
proof -
  have "\<not> surrogate (of_char c)" for c :: char
  proof -
    have "(of_char c :: nat) mod 256 < 256" by simp
    then have "(of_char c :: nat) < 256" by simp
    then show ?thesis unfolding surrogate_def by linarith
  qed
  then show ?thesis by (simp add: utext_def list_all_iff)
qed

lemma ujoin_all:
  "list_all P sep \<Longrightarrow> list_all (list_all P) xs \<Longrightarrow> list_all P (ujoin sep xs)"
  by (induction sep xs rule: ujoin.induct) simp_all

lemma urlencode_ok:
  assumes "list_all (\<lambda>kv. list_all (\<lambda>c. \<not> surrogate c) (snd kv)) params"
  shows "\<exists>r. urlencode params = Inr r"
proof -
  have "\<forall>kv \<in> set params. \<exists>y.
          (\<lambda>(k, v). then_do (quote_plus (utext k)) (\<lambda>qk.
             then_do (quote_plus v) (\<lambda>qv. Inr (qk @ ''='' @ qv)))) kv = Inr y"
  proof
    fix kv assume "kv \<in> set params"
    with assms have v: "list_all (\<lambda>c. \<not> surrogate c) (snd kv)"
      by (simp add: list_all_iff)
    obtain qk where k: "quote_plus (utext (fst kv)) = Inr qk"
      using quote_plus_ok [OF utext_no_surrogate] by blast
    obtain qv where "quote_plus (snd kv) = Inr qv"
      using quote_plus_ok [OF v] by blast
    with k show "\<exists>y. (\<lambda>(k, v). then_do (quote_plus (utext k)) (\<lambda>qk.
             then_do (quote_plus v) (\<lambda>qv. Inr (qk @ ''='' @ qv)))) kv = Inr y"
      by (cases kv) simp
  qed
  then obtain l where "for_each (\<lambda>(k, v). then_do (quote_plus (utext k)) (\<lambda>qk.
             then_do (quote_plus v) (\<lambda>qv. Inr (qk @ ''='' @ qv)))) params = Inr l"
    using for_each_ok by blast
  then show ?thesis by (simp add: urlencode_def)
qed

lemma arxiv_url_ok:
  assumes "list_all (\<lambda>c. \<not> surrogate c) query"
    and "\<forall>cs. categories = Some cs \<longrightarrow> list_all (list_all (\<lambda>c. \<not> surrogate c)) cs"
  shows "\<exists>url. arxiv_url query max_results categories = Inr url"
proof -
  let ?ok = "list_all (\<lambda>c. \<not> surrogate c)"
  have cat: "?ok (case categories of
               None \<Rightarrow> []
             | Some cs \<Rightarrow>
                 if cs = [] then []
                 else utext '' AND ('' @ ujoin (utext '' OR '') (map (\<lambda>c. utext ''cat:'' @ c) cs)
                      @ utext '')'')"
  proof (cases categories)
    case None
    then show ?thesis by simp
  next
    case (Some cs)
    with assms(2) have "list_all ?ok cs" by simp
    then have "list_all ?ok (map (\<lambda>c. utext ''cat:'' @ c) cs)"
      using utext_no_surrogate [of "''cat:''"] by (induction cs) simp_all
    then have "?ok (ujoin (utext '' OR '') (map (\<lambda>c. utext ''cat:'' @ c) cs))"
      by (rule ujoin_all [OF utext_no_surrogate])
    with Some show ?thesis by (simp add: utext_no_surrogate)
  qed
  have "\<exists>r. urlencode
          [(''search_query'', utext ''all:'' @ query @
              (case categories of
                 None \<Rightarrow> []
               | Some cs \<Rightarrow>
                   if cs = [] then []
                   else utext '' AND ('' @ ujoin (utext '' OR '') (map (\<lambda>c. utext ''cat:'' @ c) cs)
                        @ utext '')'')),
           (''start'', utext (str_int 0)),
           (''max_results'', utext (str_int max_results)),
           (''sortBy'', utext ''relevance''),
           (''sortOrder'', utext ''descending'')] = Inr r"
    by (rule urlencode_ok) (simp add: utext_no_surrogate assms(1) cat)
  then show ?thesis by (auto simp: arxiv_url_def Let_def)
qed

lemma s2_url_ok:
  assumes "list_all (\<lambda>c. \<not> surrogate c) query"
  shows "\<exists>url. s2_url query max_results = Inr url"
proof -
  have "\<exists>r. urlencode
          [(''query'', query),
           (''limit'', utext (str_int max_results)),
           (''fields'', utext ''title,authors,abstract,year,citationCount,url,openAccessPdf'')]
        = Inr r"
    by (rule urlencode_ok) (simp add: utext_no_surrogate assms)
  then show ?thesis by (auto simp: s2_url_def Let_def)
qed

lemma search_arxiv_cases:
  "(\<exists>ps. arxiv_try r = Inr ps \<and> search_arxiv r = (ps, []))
 \<or> (\<exists>e. arxiv_try r = Inl e \<and> search_arxiv r = ([], [ArxivSearchError e]))"
  by (cases "arxiv_try r") (simp_all add: search_arxiv_def)

lemma search_s2_cases:
  "(\<exists>ps. s2_try r = Inr ps \<and> search_semantic_scholar r = (ps, []))
 \<or> (\<exists>e. s2_try r = Inl e \<and> search_semantic_scholar r = ([], [SemanticScholarSearchError e]))"
  by (cases "s2_try r") (simp_all add: search_semantic_scholar_def)

lemma utf8_char_Inl: "utf8_char c = Inl e \<Longrightarrow> e = UnicodeEncodeError"
  by (simp add: utf8_char_def split: if_splits)

lemma utf8_surrogate:
  assumes "c \<in> set s" and "surrogate c"
  shows "utf8 s = Inl UnicodeEncodeError"
proof -
  from assms(2) have "utf8_char c = Inl UnicodeEncodeError"
    by (simp add: utf8_char_def surrogate_def)
  then have "\<exists>e'. for_each utf8_char s = Inl e'"
    using for_each_member_Inl [of c s utf8_char UnicodeEncodeError] assms(1) by simp
  then obtain e' where e': "for_each utf8_char s = Inl e'" ..
  then have "\<exists>x \<in> set s. utf8_char x = Inl e'"
    by (rule for_each_Inl_first)
  then have "e' = UnicodeEncodeError"
    using utf8_char_Inl by blast
  with e' show ?thesis by (simp add: utf8_def)
qed

lemma quote_plus_surrogate:
  "c \<in> set s \<Longrightarrow> surrogate c \<Longrightarrow> quote_plus s = Inl UnicodeEncodeError"
  by (simp add: quote_plus_def utf8_surrogate)

lemma urlencode_first_surrogate:
  assumes "c \<in> set v" and "surrogate c"
  shows "urlencode ((k, v) # rest) = Inl UnicodeEncodeError"
proof -
  obtain qk where "quote_plus (utext k) = Inr qk"
    using quote_plus_ok [OF utext_no_surrogate] by blast
  then show ?thesis
    using quote_plus_surrogate [OF assms] by (simp add: urlencode_def)
qed

lemma ujoin_member:
  "x \<in> set xs \<Longrightarrow> c \<in> set x \<Longrightarrow> c \<in> set (ujoin sep xs)"
  by (induction sep xs rule: ujoin.induct) auto

lemma arxiv_url_surrogate:
  assumes "surrogate c"
    and "c \<in> set query \<or> (\<exists>cs. categories = Some cs \<and> (\<exists>x \<in> set cs. c \<in> set x))"
  shows "arxiv_url query max_results categories = Inl UnicodeEncodeError"
proof -
  define cat_filter where "cat_filter =
     (case categories of
        None \<Rightarrow> []
      | Some cs \<Rightarrow>
          if cs = [] then []
          else utext '' AND ('' @ ujoin (utext '' OR '') (map (\<lambda>c. utext ''cat:'' @ c) cs)
               @ utext '')'')"
  have "c \<in> set (utext ''all:'' @ query @ cat_filter)"
  proof (cases "c \<in> set query")
    case True
    then show ?thesis by simp
  next
    case False
    with assms(2) obtain cs x where cs: "categories = Some cs" "x \<in> set cs" "c \<in> set x"
      by blast
    then have "utext ''cat:'' @ x \<in> set (map (\<lambda>c. utext ''cat:'' @ c) cs)"
      by simp
    moreover have "c \<in> set (utext ''cat:'' @ x)"
      using cs(3) by simp
    ultimately have "c \<in> set (ujoin (utext '' OR '') (map (\<lambda>c. utext ''cat:'' @ c) cs))"
      by (rule ujoin_member)
    moreover from cs(2) have "cs \<noteq> []" by auto
    ultimately show ?thesis
      using cs(1) by (simp add: cat_filter_def)
  qed
  then have "urlencode [(''search_query'', utext ''all:'' @ query @ cat_filter),
                        (''start'', utext (str_int 0)),
                        (''max_results'', utext (str_int max_results)),
                        (''sortBy'', utext ''relevance''),
                        (''sortOrder'', utext ''descending'')] = Inl UnicodeEncodeError"
    using assms(1) by (rule urlencode_first_surrogate)
  then show ?thesis
    by (simp add: arxiv_url_def Let_def cat_filter_def)
qed

lemma s2_url_surrogate:
  "c \<in> set query \<Longrightarrow> surrogate c \<Longrightarrow> s2_url query max_results = Inl UnicodeEncodeError"
  using urlencode_first_surrogate [of c query]
  by (simp add: s2_url_def Let_def)

text \<open>
  Claim C6, as stated, fails: a query that holds a lone surrogate makes \<^verbatim>\<open>urlencode\<close>
  raise \<^verbatim>\<open>UnicodeEncodeError\<close> before the \<^verbatim>\<open>try\<close> statement is entered, and the
  exception leaves \<^verbatim>\<open>search_arxiv\<close> and \<^verbatim>\<open>search_semantic_scholar\<close>.
\<close>

theorem surrogate_query_escapes_counterexample:
  "search_arxiv_call example_urlopen_xml [0xDC80] 10 None = Inl UnicodeEncodeError
 \<and> search_semantic_scholar_call example_environ example_urlopen_json [0xDC80] 10
      = Inl UnicodeEncodeError"
  by (simp add: search_arxiv_call_def search_semantic_scholar_call_def arxiv_url_def s2_url_def
      urlencode_def quote_plus_def utf8_def utf8_char_def surrogate_def utext_def Let_def)

text \<open>
  Claim C6, amended. For a query and categories without a lone surrogate, the URL is built
  and each of the two adapters returns: whatever is raised inside its \<^verbatim>\<open>try\<close>
  statement (by the request, by the parser, or by a response of the wrong shape) gives the
  empty list and one diagnostic on standard error, a statement that ends normally gives
  its papers and no diagnostic, an exception of the request or parser is an exception of
  the statement, and a response with no entries gives the empty list without a diagnostic.
  A lone surrogate in the query (for \<^verbatim>\<open>search_arxiv\<close> also in a category) makes the
  adapter raise \<^verbatim>\<open>UnicodeEncodeError\<close> instead.
\<close>

theorem adapters_return_for_encodable_query:
  "(list_all (\<lambda>c. \<not> surrogate c) query
      \<and> (\<forall>cs. categories = Some cs \<longrightarrow> list_all (list_all (\<lambda>c. \<not> surrogate c)) cs)
    \<longrightarrow> (\<exists>url. arxiv_url query max_results categories = Inr url
            \<and> search_arxiv_call urlopen query max_results categories
                = Inr (search_arxiv (urlopen url))
            \<and> ((\<exists>ps. arxiv_try (urlopen url) = Inr ps \<and> search_arxiv (urlopen url) = (ps, []))
               \<or> (\<exists>e. arxiv_try (urlopen url) = Inl e
                     \<and> search_arxiv (urlopen url) = ([], [ArxivSearchError e])))))
 \<and> (list_all (\<lambda>c. \<not> surrogate c) query
    \<longrightarrow> (\<exists>url. s2_url query max_results = Inr url
            \<and> search_semantic_scholar_call environ urlopen' query max_results
                = Inr (search_semantic_scholar (urlopen' url (s2_headers environ)))
            \<and> ((\<exists>ps. s2_try (urlopen' url (s2_headers environ)) = Inr ps
                     \<and> search_semantic_scholar (urlopen' url (s2_headers environ)) = (ps, []))
               \<or> (\<exists>e. s2_try (urlopen' url (s2_headers environ)) = Inl e
                     \<and> search_semantic_scholar (urlopen' url (s2_headers environ))
                         = ([], [SemanticScholarSearchError e])))))
 \<and> ((\<exists>c \<in> set query. surrogate c)
      \<or> (\<exists>cs. categories = Some cs \<and> (\<exists>x \<in> set cs. \<exists>c \<in> set x. surrogate c))
    \<longrightarrow> search_arxiv_call urlopen query max_results categories = Inl UnicodeEncodeError)
 \<and> ((\<exists>c \<in> set query. surrogate c)
    \<longrightarrow> search_semantic_scholar_call environ urlopen' query max_results
          = Inl UnicodeEncodeError)
 \<and> arxiv_try (Inl e) = Inl e
 \<and> s2_try (Inl e) = Inl e
 \<and> (findall root (atom ''entry'') = [] \<longrightarrow> search_arxiv (Inr root) = ([], []))
 \<and> (dict_get d ''data'' (PList []) = PList [] \<longrightarrow>
       search_semantic_scholar (Inr (PDict d)) = ([], []))"
proof (intro conjI impI)
  assume a: "list_all (\<lambda>c. \<not> surrogate c) query
      \<and> (\<forall>cs. categories = Some cs \<longrightarrow> list_all (list_all (\<lambda>c. \<not> surrogate c)) cs)"
  then obtain url where u: "arxiv_url query max_results categories = Inr url"
    using arxiv_url_ok [of query categories max_results] by blast
  then have "search_arxiv_call urlopen query max_results categories = Inr (search_arxiv (urlopen url))"
    by (simp add: search_arxiv_call_def)
  with u search_arxiv_cases [of "urlopen url"]
  show "\<exists>url. arxiv_url query max_results categories = Inr url
            \<and> search_arxiv_call urlopen query max_results categories
                = Inr (search_arxiv (urlopen url))
            \<and> ((\<exists>ps. arxiv_try (urlopen url) = Inr ps \<and> search_arxiv (urlopen url) = (ps, []))
               \<or> (\<exists>e. arxiv_try (urlopen url) = Inl e
                     \<and> search_arxiv (urlopen url) = ([], [ArxivSearchError e])))"
    by blast
next
  assume "list_all (\<lambda>c. \<not> surrogate c) query"
  then obtain url where u: "s2_url query max_results = Inr url"
    using s2_url_ok [of query max_results] by blast
  then have "search_semantic_scholar_call environ urlopen' query max_results
                = Inr (search_semantic_scholar (urlopen' url (s2_headers environ)))"
    by (simp add: search_semantic_scholar_call_def)
  with u search_s2_cases [of "urlopen' url (s2_headers environ)"]
  show "\<exists>url. s2_url query max_results = Inr url
            \<and> search_semantic_scholar_call environ urlopen' query max_results
                = Inr (search_semantic_scholar (urlopen' url (s2_headers environ)))
            \<and> ((\<exists>ps. s2_try (urlopen' url (s2_headers environ)) = Inr ps
                     \<and> search_semantic_scholar (urlopen' url (s2_headers environ)) = (ps, []))
               \<or> (\<exists>e. s2_try (urlopen' url (s2_headers environ)) = Inl e
                     \<and> search_semantic_scholar (urlopen' url (s2_headers environ))
                         = ([], [SemanticScholarSearchError e])))"
    by blast
next
  assume "(\<exists>c \<in> set query. surrogate c)
      \<or> (\<exists>cs. categories = Some cs \<and> (\<exists>x \<in> set cs. \<exists>c \<in> set x. surrogate c))"
  then obtain c where "surrogate c"
    and "c \<in> set query \<or> (\<exists>cs. categories = Some cs \<and> (\<exists>x \<in> set cs. c \<in> set x))"
    by blast
  then have "arxiv_url query max_results categories = Inl UnicodeEncodeError"
    by (rule arxiv_url_surrogate)
  then show "search_arxiv_call urlopen query max_results categories = Inl UnicodeEncodeError"
    by (simp add: search_arxiv_call_def)
next
  assume "\<exists>c \<in> set query. surrogate c"
  then obtain c where c: "c \<in> set query" "surrogate c" by blast
  show "search_semantic_scholar_call environ urlopen' query max_results = Inl UnicodeEncodeError"
    by (simp add: search_semantic_scholar_call_def s2_url_surrogate [OF c])
next
  show "arxiv_try (Inl e) = Inl e" by (simp add: arxiv_try_def)
  show "s2_try (Inl e) = Inl e" by (simp add: s2_try_def)
next
  assume "findall root (atom ''entry'') = []"
  then show "search_arxiv (Inr root) = ([], [])"
    by (simp add: search_arxiv_def arxiv_try_def)
next
  assume "dict_get d ''data'' (PList []) = PList []"
  then show "search_semantic_scholar (Inr (PDict d)) = ([], [])"
    by (simp add: search_semantic_scholar_def s2_try_def)
qed

theorem adapters_return_for_encodable_query_witness:
  "search_arxiv_call example_urlopen_xml (utext ''sparse regression'') 10
      (Some [utext ''stat.ML'', utext ''math.ST''])
     = Inr ([example_arxiv_paper], [])
 \<and> search_semantic_scholar_call example_environ example_urlopen_json
      (utext ''sparse regression'') 10
     = Inr ([example_s2_paper], [])
 \<and> search_arxiv_call example_urlopen_xml (utext ''sparse '' @ [0xDC80]) 10 None
     = Inl UnicodeEncodeError
 \<and> search_semantic_scholar_call example_environ example_urlopen_json
      (utext ''sparse '' @ [0xDC80]) 10
     = Inl UnicodeEncodeError
 \<and> search_arxiv (Inr (example_feed [])) = ([], [])
 \<and> search_semantic_scholar (Inr (PDict [(''total'', PInt 0)])) = ([], [])"
proof -
  have q: "list_all (\<lambda>c. \<not> surrogate c) (utext ''sparse regression'')"
    by (rule utext_no_surrogate)
  have c: "\<forall>cs. Some [utext ''stat.ML'', utext ''math.ST''] = Some cs
             \<longrightarrow> list_all (list_all (\<lambda>c. \<not> surrogate c)) cs"
    by (auto simp: utext_no_surrogate)
  have z: "findall (example_feed []) (atom ''entry'') = []"
    by (simp add: example_feed_entries)
  have d: "dict_get [(''total'', PInt 0)] ''data'' (PList []) = PList []"
    by (simp add: dict_get_def)
  have s: "\<exists>c \<in> set (utext ''sparse '' @ [0xDC80]). surrogate c"
    by (simp add: surrogate_def)
  note T = adapters_return_for_encodable_query [of "utext ''sparse regression''"
      "Some [utext ''stat.ML'', utext ''math.ST'']" 10 example_urlopen_xml example_environ
      example_urlopen_json TransportError "example_feed []" "[(''total'', PInt 0)]"]
  note S = adapters_return_for_encodable_query [of "utext ''sparse '' @ [0xDC80]" None 10
      example_urlopen_xml example_environ example_urlopen_json TransportError "example_feed []"
      "[(''total'', PInt 0)]"]
  from T q c have 1: "search_arxiv_call example_urlopen_xml (utext ''sparse regression'') 10
      (Some [utext ''stat.ML'', utext ''math.ST'']) = Inr ([example_arxiv_paper], [])"
    by (auto simp: example_urlopen_xml_def example_feed_one)
  from T q have 2: "search_semantic_scholar_call example_environ example_urlopen_json
      (utext ''sparse regression'') 10 = Inr ([example_s2_paper], [])"
    by (auto simp: example_urlopen_json_def example_s2_parsed)
  from S s have 3: "search_arxiv_call example_urlopen_xml (utext ''sparse '' @ [0xDC80]) 10 None
     = Inl UnicodeEncodeError"
    by blast
  from S s have 6: "search_semantic_scholar_call example_environ example_urlopen_json
      (utext ''sparse '' @ [0xDC80]) 10 = Inl UnicodeEncodeError"
    by blast
  from T z have 4: "search_arxiv (Inr (example_feed [])) = ([], [])"
    by blast
  from T d have 5: "search_semantic_scholar (Inr (PDict [(''total'', PInt 0)])) = ([], [])"
    by blast
  from 1 2 3 6 4 5 show ?thesis by (intro conjI)
qed


section \<open>Bounds on the fields of a paper\<close>

text \<open>
  Claim C5. Every paper of \<^verbatim>\<open>search_arxiv\<close> has a string abstract of at most 500
  characters, at most 3 authors and at most 3 categories. Every paper of
  \<^verbatim>\<open>search_semantic_scholar\<close> has an abstract of length at most 500 (a string, or a
  list when the upstream abstract is a list), at most 3 authors and no categories.
\<close>

theorem adapter_field_bounds:
  "(\<forall>p \<in> set (fst (search_arxiv response)).
      (\<exists>s. map_of p ''abstract'' = Some (PStr s) \<and> length s \<le> 500)
    \<and> (\<exists>as. map_of p ''authors'' = Some (PList as) \<and> length as \<le> 3)
    \<and> (\<exists>cs. map_of p ''categories'' = Some (PList cs) \<and> length cs \<le> 3))
 \<and> (\<forall>p \<in> set (fst (search_semantic_scholar response')).
      ((\<exists>s. map_of p ''abstract'' = Some (PStr s) \<and> length s \<le> 500)
        \<or> (\<exists>l. map_of p ''abstract'' = Some (PList l) \<and> length l \<le> 500))
    \<and> (\<exists>as. map_of p ''authors'' = Some (PList as) \<and> length as \<le> 3)
    \<and> map_of p ''categories'' = None)"
proof (intro conjI ballI)
  fix p assume "p \<in> set (fst (search_arxiv response))"
  then obtain entry where "arxiv_entry entry = Inr p"
    using search_arxiv_papers by blast
  from arxiv_entry_Inr [OF this] obtain title authors summary arxiv_id categories published where
    p: "p = [(''title'', PStr title),
             (''authors'', PList (take 3 authors)),
             (''abstract'', PStr (take 500 summary)),
             (''arxiv_id'', PStr arxiv_id),
             (''url'', PStr (''https://arxiv.org/abs/'' @ arxiv_id)),
             (''pdf'', PStr (''https://arxiv.org/pdf/'' @ arxiv_id)),
             (''categories'', PList (take 3 categories)),
             (''date'', PStr (take 10 published)),
             (''source'', PStr ''arXiv'')]"
    by blast
  show "\<exists>s. map_of p ''abstract'' = Some (PStr s) \<and> length s \<le> 500"
    by (simp add: p)
  show "\<exists>as. map_of p ''authors'' = Some (PList as) \<and> length as \<le> 3"
    by (simp add: p)
  show "\<exists>cs. map_of p ''categories'' = Some (PList cs) \<and> length cs \<le> 3"
    by (simp add: p)
next
  fix p assume "p \<in> set (fst (search_semantic_scholar response'))"
  then obtain v where "s2_paper v = Inr p"
    using search_s2_papers by blast
  from s2_paper_Inr [OF this] obtain d authors abstract pdf where
    p: "p = [(''title'', dict_get d ''title'' (PStr '''')),
             (''authors'', PList authors),
             (''abstract'', abstract),
             (''year'', dict_get d ''year'' PNone),
             (''citations'', dict_get d ''citationCount'' (PInt 0)),
             (''url'', dict_get d ''url'' (PStr '''')),
             (''pdf'', pdf),
             (''source'', PStr ''Semantic Scholar'')]"
    and len: "length authors \<le> 3"
    and ab: "(\<exists>s. abstract = PStr s \<and> length s \<le> 500) \<or> (\<exists>l. abstract = PList l \<and> length l \<le> 500)"
    by blast
  show "(\<exists>s. map_of p ''abstract'' = Some (PStr s) \<and> length s \<le> 500)
        \<or> (\<exists>l. map_of p ''abstract'' = Some (PList l) \<and> length l \<le> 500)"
    using ab by (simp add: p)
  show "\<exists>as. map_of p ''authors'' = Some (PList as) \<and> length as \<le> 3"
    using len by (simp add: p)
  show "map_of p ''categories'' = None"
    by (simp add: p)
qed

theorem adapter_field_bounds_witness:
  "example_arxiv_paper \<in> set (fst (search_arxiv (Inr (example_feed [example_entry]))))
 \<and> map_of example_arxiv_paper ''authors''
      = Some (PList [PStr ''Ada Lovelace'', PStr ''Alan Turing'', PNone])
 \<and> map_of example_arxiv_paper ''categories''
      = Some (PList [PStr ''stat.ML'', PStr ''math.ST'', PNone])
 \<and> example_s2_paper \<in> set (fst (search_semantic_scholar (Inr example_s2_response)))
 \<and> map_of example_s2_paper ''abstract'' = Some (PStr '''')
 \<and> map_of example_s2_paper ''categories'' = None"
  using adapter_field_bounds [of "Inr (example_feed [example_entry])" "Inr example_s2_response"]
  by (simp add: example_feed_one example_s2_parsed example_s2_paper_def example_arxiv_paper_def)

section \<open>Source and title of a paper\<close>

text \<open>
  Claim C2, as stated, fails: a Semantic Scholar record without a title becomes a paper
  whose title is the empty string, not a placeholder.
\<close>

theorem empty_title_counterexample:
  "search_semantic_scholar (Inr (PDict [(''data'', PList [PDict []])]))
     = ([[(''title'', PStr ''''), (''authors'', PList []), (''abstract'', PStr ''''),
          (''year'', PNone), (''citations'', PInt 0), (''url'', PStr ''''), (''pdf'', PStr ''''),
          (''source'', PStr ''Semantic Scholar'')]], [])"
  by (simp add: search_semantic_scholar_def s2_try_def s2_paper_def dict_get_def)

text \<open>
  Claim C2, amended. Every paper of the two adapters has the source \<^verbatim>\<open>arXiv\<close>,
  respectively \<^verbatim>\<open>Semantic Scholar\<close>, and a title key. The arXiv title is the stripped
  text of the title element with newlines replaced by spaces; the Semantic Scholar title is
  the upstream value, and the empty string when the record has no title.
\<close>

theorem adapter_source_and_title:
  "(\<forall>p \<in> set (fst (search_arxiv response)).
      map_of p ''source'' = Some (PStr ''arXiv'') \<and> (\<exists>t. map_of p ''title'' = Some (PStr t)))
 \<and> (\<forall>p \<in> set (fst (search_semantic_scholar response')).
      map_of p ''source'' = Some (PStr ''Semantic Scholar'') \<and> (\<exists>v. map_of p ''title'' = Some v))
 \<and> (\<forall>p. arxiv_entry entry = Inr p \<longrightarrow>
      (\<exists>t. find_text entry (atom ''title'') = Inr (Some t)
         \<and> map_of p ''title'' = Some (PStr (replace (CHR 0x0A) '' '' (strip t)))))
 \<and> (\<forall>p. s2_paper (PDict d) = Inr p \<longrightarrow>
      map_of p ''title'' = Some (dict_get d ''title'' (PStr '''')))"
proof (intro conjI ballI allI impI)
  fix p assume "p \<in> set (fst (search_arxiv response))"
  then obtain entry where "arxiv_entry entry = Inr p"
    using search_arxiv_papers by blast
  from arxiv_entry_Inr [OF this]
  show "map_of p ''source'' = Some (PStr ''arXiv'')" and "\<exists>t. map_of p ''title'' = Some (PStr t)"
    by auto
next
  fix p assume "p \<in> set (fst (search_semantic_scholar response'))"
  then obtain v where "s2_paper v = Inr p"
    using search_s2_papers by blast
  from s2_paper_Inr [OF this]
  show "map_of p ''source'' = Some (PStr ''Semantic Scholar'')" and "\<exists>v. map_of p ''title'' = Some v"
    by auto
next
  fix p assume "arxiv_entry entry = Inr p"
  then show "\<exists>t. find_text entry (atom ''title'') = Inr (Some t)
         \<and> map_of p ''title'' = Some (PStr (replace (CHR 0x0A) '' '' (strip t)))"
    by (rule arxiv_entry_title)
next
  fix p assume "s2_paper (PDict d) = Inr p"
  from s2_paper_Inr [OF this]
  show "map_of p ''title'' = Some (dict_get d ''title'' (PStr ''''))"
    by auto
qed

theorem adapter_source_and_title_witness:
  "example_arxiv_paper \<in> set (fst (search_arxiv (Inr (example_feed [example_entry]))))
 \<and> map_of example_arxiv_paper ''source'' = Some (PStr ''arXiv'')
 \<and> example_s2_paper \<in> set (fst (search_semantic_scholar (Inr example_s2_response)))
 \<and> map_of example_s2_paper ''source'' = Some (PStr ''Semantic Scholar'')
 \<and> map_of example_s2_paper ''title'' = Some (PStr '''')"
  using adapter_source_and_title [of "Inr (example_feed [example_entry])" "Inr example_s2_response"]
  by (simp add: example_feed_one example_s2_parsed example_s2_paper_def)

section \<open>A feed entry that cannot be parsed\<close>

text \<open>
  Claim C7, as stated, fails: the example entry alone is parsed, but followed by an entry
  without a summary the whole feed gives no paper.
\<close>

theorem one_bad_entry_drops_feed_counterexample:
  "search_arxiv (Inr (example_feed [example_entry])) = ([example_arxiv_paper], [])
 \<and> arxiv_entry example_entry_without_summary = Inl AttributeError
 \<and> search_arxiv (Inr (example_feed [example_entry, example_entry_without_summary]))
      = ([], [ArxivSearchError AttributeError])"
  by (simp add: example_feed_one example_feed_two example_entry_without_summary_fails)

text \<open>
  Claim C7, amended. \<^verbatim>\<open>search_arxiv\<close> never skips a single entry: either every
  entry of the feed is parsed and the papers are returned in the order of the entries, or
  some entry raises and the result is the empty list with the diagnostic of that exception.
\<close>

theorem arxiv_all_or_nothing:
  "(\<exists>ps. search_arxiv (Inr root) = (ps, [])
        \<and> list_all2 (\<lambda>entry p. arxiv_entry entry = Inr p) (findall root (atom ''entry'')) ps)
 \<or> (\<exists>entry \<in> set (findall root (atom ''entry'')). \<exists>e.
        arxiv_entry entry = Inl e \<and> search_arxiv (Inr root) = ([], [ArxivSearchError e]))"
proof (cases "for_each arxiv_entry (findall root (atom ''entry''))")
  case (Inl e)
  then obtain entry where "entry \<in> set (findall root (atom ''entry''))" "arxiv_entry entry = Inl e"
    by (blast dest: for_each_Inl_first)
  moreover from Inl have "search_arxiv (Inr root) = ([], [ArxivSearchError e])"
    by (simp add: search_arxiv_def arxiv_try_def)
  ultimately show ?thesis by blast
next
  case (Inr ps)
  then have "list_all2 (\<lambda>entry p. arxiv_entry entry = Inr p) (findall root (atom ''entry'')) ps"
    by (rule for_each_Inr_all2)
  moreover from Inr have "search_arxiv (Inr root) = (ps, [])"
    by (simp add: search_arxiv_def arxiv_try_def)
  ultimately show ?thesis by blast
qed

section \<open>BibTeX entries\<close>

declare digits.simps [simp del]

lemma split_ws_all_space: "list_all isspace s \<Longrightarrow> split_ws [] s = []"
  by (induction s) simp_all

lemma split_all_space: "list_all isspace s \<Longrightarrow> split s = []"
  by (simp add: split_def split_ws_all_space)

lemma length_digits_step:
  "length (digits n) = (if n < 10 then 1 else Suc (length (digits (n div 10))))"
  by (subst digits.simps) simp

lemma length_digits_4: "1000 \<le> n \<Longrightarrow> n \<le> 9999 \<Longrightarrow> length (digits n) = 4"
proof -
  assume a: "1000 \<le> n" "n \<le> 9999"
  have 1: "length (digits n) = Suc (length (digits (n div 10)))"
    using a by (subst length_digits_step) simp
  have 2: "length (digits (n div 10)) = Suc (length (digits (n div 10 div 10)))"
    using a by (subst length_digits_step) simp
  have 3: "length (digits (n div 10 div 10)) = Suc (length (digits (n div 10 div 10 div 10)))"
    using a by (subst length_digits_step) simp
  have 4: "length (digits (n div 10 div 10 div 10)) = 1"
    using a by (subst length_digits_step) simp
  show ?thesis by (simp add: 1 2 3 4)
qed

lemma str_int_year_4: "1000 \<le> n \<Longrightarrow> n \<le> 9999 \<Longrightarrow> length (str_int n) = 4"
  by (simp add: str_int_def length_digits_4)

lemma for_each_join_item: "for_each join_item (map PStr ss) = Inr ss"
  by (induction ss) simp_all

lemma py_join_strs: "py_join sep (PList (map PStr ss)) = Inr (join sep ss)"
  by (simp add: py_join_def for_each_join_item)

lemma first_item_hd: "xs \<noteq> [] \<Longrightarrow> first_item xs = Inr (hd xs)"
  by (cases xs) simp_all

lemma year_of_cases:
  "year_of paper =
     (if truthy (dict_get paper ''year'' PNone) then Inr (dict_get paper ''year'' PNone)
      else then_do (slice_to 4 (dict_get paper ''date'' (PStr ''''))) (\<lambda>d.
           Inr (if truthy d then d else PStr ''2024'')))"
  by (simp add: year_of_def Let_def)

lemma lower_lovelace: "lower ''Lovelace'' = ''lovelace''"
  by code_simp

lemma lower_sparse: "lower ''Sparse'' = ''sparse''"
  by code_simp

lemma lower_noether: "lower ''Noether'' = ''noether''"
  by code_simp

lemma lower_dense: "lower ''Dense'' = ''dense''"
  by code_simp

lemma as_str_Inr_iff: "as_str v = Inr s \<longleftrightarrow> v = PStr s"
  by (cases v) auto

lemma last_item_Inr_iff: "last_item xs = Inr x \<longleftrightarrow> xs \<noteq> [] \<and> x = last xs"
  by (auto simp: last_item_def)

lemma first_item_Inr_iff: "first_item xs = Inr x \<longleftrightarrow> xs \<noteq> [] \<and> x = hd xs"
  by (cases xs) auto

lemma first_author_Inr_iff:
  "first_author paper = Inr fa \<longleftrightarrow>
     (\<exists>name. index0 (dict_get paper ''authors'' (PList [PStr ''Unknown''])) = Inr (PStr name)
        \<and> split name \<noteq> [] \<and> fa = last (split name))"
  by (auto simp: first_author_def then_do_Inr_iff as_str_Inr_iff last_item_Inr_iff)

lemma title_word_Inr_iff:
  "title_word paper = Inr tw \<longleftrightarrow>
     (\<exists>title. dict_get paper ''title'' (PStr ''paper'') = PStr title
        \<and> split title \<noteq> [] \<and> tw = lower (hd (split title)))"
  by (auto simp: title_word_def then_do_Inr_iff as_str_Inr_iff first_item_Inr_iff)

lemma generate_bibtex_Inr_iff:
  "generate_bibtex papers = Inr text \<longleftrightarrow>
     (\<exists>entries. list_all2 (\<lambda>paper entry. bibtex_entry paper = Inr entry) papers entries
        \<and> text = join ''\<newline>\<newline>'' entries)"
  by (auto simp: generate_bibtex_def then_do_Inr_iff dest: for_each_Inr_all2 for_each_all2_Inr)

lemma lower_b: "lower ''B'' = ''b''"
  by code_simp

lemma lower_two: "lower ''Two'' = ''two''"
  by code_simp

lemma str_99: "str (PInt 99) = ''99''"
  by (simp add: str_int_def digits.simps)

text \<open>
  Claim C3, as stated, fails: the paper of the example feed and the paper of the example
  Semantic Scholar response have no citation key, because \<^verbatim>\<open>generate_bibtex\<close> raises
  on them; and a paper with the year 99 gets a key with a two-digit year.
\<close>

theorem citation_key_counterexample:
  "generate_bibtex [example_arxiv_paper] = Inl TypeError
 \<and> generate_bibtex [example_s2_paper] = Inl IndexError
 \<and> generate_bibtex [[(''title'', PStr ''Two words''), (''authors'', PList [PStr ''A B'']),
                      (''year'', PInt 99)]]
     = Inr (''@article{b99two,\<newline>'' @
            ''    title = {Two words},\<newline>'' @
            ''    author = {A B},\<newline>'' @
            ''    year = {99},\<newline>'' @
            ''    url = {},\<newline>'' @
            ''    note = {Source: Unknown}\<newline>'' @
            ''}'')"
proof (intro conjI)
  show "generate_bibtex [example_arxiv_paper] = Inl TypeError"
    by (simp add: generate_bibtex_def bibtex_entry_def first_author_def year_of_def
        title_word_def example_arxiv_paper_def dict_get_def split_def isspace_def last_item_def
        py_join_def Let_def)
  show "generate_bibtex [example_s2_paper] = Inl IndexError"
    by (simp add: generate_bibtex_def bibtex_entry_def first_author_def year_of_def
        title_word_def example_s2_paper_def dict_get_def split_def isspace_def last_item_def
        Let_def)
  have s: "split ''A B'' = [''A'', ''B'']" "split ''Two words'' = [''Two'', ''words'']"
    by (simp_all add: split_def isspace_def)
  show "generate_bibtex [[(''title'', PStr ''Two words''), (''authors'', PList [PStr ''A B'']),
                      (''year'', PInt 99)]]
     = Inr (''@article{b99two,\<newline>'' @
            ''    title = {Two words},\<newline>'' @
            ''    author = {A B},\<newline>'' @
            ''    year = {99},\<newline>'' @
            ''    url = {},\<newline>'' @
            ''    note = {Source: Unknown}\<newline>'' @
            ''}'')"
    using str_99
    by (simp add: generate_bibtex_def bibtex_entry_def first_author_def year_of_def
        title_word_def dict_get_def s last_item_def py_join_def lower_b lower_two Let_def)
qed

text \<open>
  Claim C3, amended. \<^verbatim>\<open>generate_bibtex\<close> returns exactly when every paper has an
  entry, and then returns the entries joined by a blank line. A paper has an entry exactly
  when the first element of its authors is a string with a token, its year can be
  determined, its title is a string with a token and its authors can be joined; the entry
  then starts with the key lowercase(last token of the first author's name), the year
  printed as it is, lowercase(first token of the title), and shows the same year in its
  year field. The year is the year field when that is truthy, else the first four
  characters of a non-empty date, else the literal 2024; an integer year from 1000 to 9999
  is printed with four digits. The key depends on the paper only through these three
  values.
\<close>

theorem bibtex_entry_key:
  "(generate_bibtex papers = Inr text \<longleftrightarrow>
      (\<exists>entries. list_all2 (\<lambda>paper entry. bibtex_entry paper = Inr entry) papers entries
         \<and> text = join ''\<newline>\<newline>'' entries))
 \<and> (bibtex_entry paper = Inr entry \<longleftrightarrow>
      (\<exists>name title y authors_str.
          index0 (dict_get paper ''authors'' (PList [PStr ''Unknown''])) = Inr (PStr name)
        \<and> split name \<noteq> []
        \<and> year_of paper = Inr y
        \<and> dict_get paper ''title'' (PStr ''paper'') = PStr title
        \<and> split title \<noteq> []
        \<and> py_join '' and '' (dict_get paper ''authors'' (PList [PStr ''Unknown''])) = Inr authors_str
        \<and> entry =
            ''@article{'' @ lower (last (split name)) @ str y @ lower (hd (split title)) @ '',\<newline>'' @
            ''    title = {'' @ str (dict_get paper ''title'' (PStr ''Unknown Title'')) @ ''},\<newline>'' @
            ''    author = {'' @ authors_str @ ''},\<newline>'' @
            ''    year = {'' @ str y @ ''},\<newline>'' @
            ''    url = {'' @ str (dict_get paper ''url'' (PStr '''')) @ ''},\<newline>'' @
            ''    note = {Source: '' @ str (dict_get paper ''source'' (PStr ''Unknown'')) @ ''}\<newline>'' @
            ''}''))
 \<and> (truthy (dict_get paper ''year'' PNone)
      \<longrightarrow> year_of paper = Inr (dict_get paper ''year'' PNone))
 \<and> (\<not> truthy (dict_get paper ''year'' PNone) \<and> dict_get paper ''date'' (PStr '''') = PStr d
        \<and> d \<noteq> []
      \<longrightarrow> year_of paper = Inr (PStr (take 4 d)))
 \<and> (\<not> truthy (dict_get paper ''year'' PNone) \<and> dict_get paper ''date'' (PStr '''') = PStr []
      \<longrightarrow> year_of paper = Inr (PStr ''2024''))
 \<and> (1000 \<le> n \<and> n \<le> 9999 \<longrightarrow> length (str (PInt n)) = 4)"
proof (intro conjI)
  show "generate_bibtex papers = Inr text \<longleftrightarrow>
      (\<exists>entries. list_all2 (\<lambda>paper entry. bibtex_entry paper = Inr entry) papers entries
         \<and> text = join ''\<newline>\<newline>'' entries)"
    by (rule generate_bibtex_Inr_iff)
  show "bibtex_entry paper = Inr entry \<longleftrightarrow>
      (\<exists>name title y authors_str.
          index0 (dict_get paper ''authors'' (PList [PStr ''Unknown''])) = Inr (PStr name)
        \<and> split name \<noteq> []
        \<and> year_of paper = Inr y
        \<and> dict_get paper ''title'' (PStr ''paper'') = PStr title
        \<and> split title \<noteq> []
        \<and> py_join '' and '' (dict_get paper ''authors'' (PList [PStr ''Unknown''])) = Inr authors_str
        \<and> entry =
            ''@article{'' @ lower (last (split name)) @ str y @ lower (hd (split title)) @ '',\<newline>'' @
            ''    title = {'' @ str (dict_get paper ''title'' (PStr ''Unknown Title'')) @ ''},\<newline>'' @
            ''    author = {'' @ authors_str @ ''},\<newline>'' @
            ''    year = {'' @ str y @ ''},\<newline>'' @
            ''    url = {'' @ str (dict_get paper ''url'' (PStr '''')) @ ''},\<newline>'' @
            ''    note = {Source: '' @ str (dict_get paper ''source'' (PStr ''Unknown'')) @ ''}\<newline>'' @
            ''}'')"
    unfolding bibtex_entry_def Let_def then_do_Inr_iff first_author_Inr_iff title_word_Inr_iff
    by (simp only: append_assoc) blast
  show "truthy (dict_get paper ''year'' PNone)
      \<longrightarrow> year_of paper = Inr (dict_get paper ''year'' PNone)"
    by (simp add: year_of_cases)
  show "\<not> truthy (dict_get paper ''year'' PNone) \<and> dict_get paper ''date'' (PStr '''') = PStr d
        \<and> d \<noteq> []
      \<longrightarrow> year_of paper = Inr (PStr (take 4 d))"
    by (simp add: year_of_cases)
  show "\<not> truthy (dict_get paper ''year'' PNone) \<and> dict_get paper ''date'' (PStr '''') = PStr []
      \<longrightarrow> year_of paper = Inr (PStr ''2024'')"
    by (simp add: year_of_cases)
  show "1000 \<le> n \<and> n \<le> 9999 \<longrightarrow> length (str (PInt n)) = 4"
    by (simp add: str_int_year_4)
qed

theorem bibtex_entry_key_witness:
  "generate_bibtex
     [[(''title'', PStr ''Sparse regression''),
       (''authors'', PList [PStr ''Ada Lovelace'', PStr ''Alan Turing'']),
       (''url'', PStr ''https://arxiv.org/abs/2101.00001v1''),
       (''source'', PStr ''arXiv'')],
      [(''title'', PStr ''Dense regression''),
       (''authors'', PList [PStr ''Emmy Noether'']),
       (''year'', PNone),
       (''date'', PStr ''1999-12-31'')]]
     = Inr (''@article{lovelace2024sparse,\<newline>'' @
            ''    title = {Sparse regression},\<newline>'' @
            ''    author = {Ada Lovelace and Alan Turing},\<newline>'' @
            ''    year = {2024},\<newline>'' @
            ''    url = {https://arxiv.org/abs/2101.00001v1},\<newline>'' @
            ''    note = {Source: arXiv}\<newline>'' @
            ''}'' @ ''\<newline>\<newline>'' @
            ''@article{noether1999dense,\<newline>'' @
            ''    title = {Dense regression},\<newline>'' @
            ''    author = {Emmy Noether},\<newline>'' @
            ''    year = {1999},\<newline>'' @
            ''    url = {},\<newline>'' @
            ''    note = {Source: Unknown}\<newline>'' @
            ''}'')
 \<and> year_of [(''year'', PInt 2021), (''date'', PStr ''1999-12-31'')] = Inr (PInt 2021)
 \<and> length (str (PInt 2021)) = 4"
proof -
  let ?p = "[(''title'', PStr ''Sparse regression''),
             (''authors'', PList [PStr ''Ada Lovelace'', PStr ''Alan Turing'']),
             (''url'', PStr ''https://arxiv.org/abs/2101.00001v1''),
             (''source'', PStr ''arXiv'')]"
  let ?r = "[(''title'', PStr ''Dense regression''),
             (''authors'', PList [PStr ''Emmy Noether'']),
             (''year'', PNone),
             (''date'', PStr ''1999-12-31'')]"
  let ?ep = "''@article{lovelace2024sparse,\<newline>'' @
            ''    title = {Sparse regression},\<newline>'' @
            ''    author = {Ada Lovelace and Alan Turing},\<newline>'' @
            ''    year = {2024},\<newline>'' @
            ''    url = {https://arxiv.org/abs/2101.00001v1},\<newline>'' @
            ''    note = {Source: arXiv}\<newline>'' @
            ''}''"
  let ?er = "''@article{noether1999dense,\<newline>'' @
            ''    title = {Dense regression},\<newline>'' @
            ''    author = {Emmy Noether},\<newline>'' @
            ''    year = {1999},\<newline>'' @
            ''    url = {},\<newline>'' @
            ''    note = {Source: Unknown}\<newline>'' @
            ''}''"
  have s: "split ''Ada Lovelace'' = [''Ada'', ''Lovelace'']"
    "split ''Sparse regression'' = [''Sparse'', ''regression'']"
    "split ''Emmy Noether'' = [''Emmy'', ''Noether'']"
    "split ''Dense regression'' = [''Dense'', ''regression'']"
    by (simp_all add: split_def isspace_def)
  have yp: "year_of ?p = Inr (PStr ''2024'')"
    using bibtex_entry_key [of _ _ ?p, THEN conjunct2, THEN conjunct2, THEN conjunct2,
        THEN conjunct2, THEN conjunct1]
    by (simp add: dict_get_def)
  have yr: "year_of ?r = Inr (PStr ''1999'')"
    using bibtex_entry_key [of _ _ ?r _ "''1999-12-31''", THEN conjunct2, THEN conjunct2,
        THEN conjunct2, THEN conjunct1]
    by (simp add: dict_get_def)
  have ep: "bibtex_entry ?p = Inr ?ep"
    apply (rule bibtex_entry_key [THEN conjunct2, THEN conjunct1, THEN iffD2])
    apply (rule exI [of _ "''Ada Lovelace''"])
    apply (rule exI [of _ "''Sparse regression''"])
    apply (rule exI [of _ "PStr ''2024''"])
    apply (rule exI [of _ "''Ada Lovelace and Alan Turing''"])
    apply (simp add: yp s dict_get_def py_join_def lower_lovelace lower_sparse)
    done
  have er: "bibtex_entry ?r = Inr ?er"
    apply (rule bibtex_entry_key [THEN conjunct2, THEN conjunct1, THEN iffD2])
    apply (rule exI [of _ "''Emmy Noether''"])
    apply (rule exI [of _ "''Dense regression''"])
    apply (rule exI [of _ "PStr ''1999''"])
    apply (rule exI [of _ "''Emmy Noether''"])
    apply (simp add: yr s dict_get_def py_join_def lower_noether lower_dense)
    done
  have g: "generate_bibtex [?p, ?r] = Inr (join ''\<newline>\<newline>'' [?ep, ?er])"
    apply (rule bibtex_entry_key [THEN conjunct1, THEN iffD2])
    apply (rule exI [of _ "[?ep, ?er]"])
    apply (simp add: ep er)
    done
  have y: "year_of [(''year'', PInt 2021), (''date'', PStr ''1999-12-31'')] = Inr (PInt 2021)"
    using bibtex_entry_key [of _ _ "[(''year'', PInt 2021), (''date'', PStr ''1999-12-31'')]",
        THEN conjunct2, THEN conjunct2, THEN conjunct1]
    by (simp add: dict_get_def)
  have l: "length (str (PInt 2021)) = 4"
    using bibtex_entry_key [of _ _ _ _ _ 2021] by simp
  from g y l show ?thesis by simp
qed

text \<open>
  Claim C10. \<^verbatim>\<open>generate_bibtex\<close> is partial: a paper whose authors are the empty list
  makes the entry raise \<^verbatim>\<open>IndexError\<close>; a paper whose title is empty or whitespace only
  makes it raise, with \<^verbatim>\<open>IndexError\<close> when the author and year steps before it succeed;
  one such paper makes the whole of \<^verbatim>\<open>generate_bibtex\<close> raise. The defaults
  \<^verbatim>\<open>Unknown\<close> and \<^verbatim>\<open>paper\<close> apply only when the key is missing.
\<close>

theorem bibtex_partial:
  "(map_of paper ''authors'' = Some (PList []) \<longrightarrow> bibtex_entry paper = Inl IndexError)
 \<and> (\<forall>t. map_of paper ''title'' = Some (PStr t) \<and> list_all isspace t \<longrightarrow>
        title_word paper = Inl IndexError
      \<and> (\<exists>e. bibtex_entry paper = Inl e)
      \<and> (\<forall>fa y. first_author paper = Inr fa \<and> year_of paper = Inr y
            \<longrightarrow> bibtex_entry paper = Inl IndexError))
 \<and> (\<forall>papers e. paper \<in> set papers \<and> bibtex_entry paper = Inl e
        \<longrightarrow> (\<exists>e'. generate_bibtex papers = Inl e'))
 \<and> (map_of paper ''authors'' = None \<longrightarrow> first_author paper = Inr ''Unknown'')
 \<and> (map_of paper ''title'' = None \<longrightarrow> title_word paper = Inr ''paper'')"
proof (intro conjI allI impI)
  assume "map_of paper ''authors'' = Some (PList [])"
  then show "bibtex_entry paper = Inl IndexError"
    by (simp add: bibtex_entry_def first_author_def dict_get_def)
next
  fix t assume h: "map_of paper ''title'' = Some (PStr t) \<and> list_all isspace t"
  then show tw: "title_word paper = Inl IndexError"
    by (simp add: title_word_def dict_get_def split_all_space)
  show "\<exists>e. bibtex_entry paper = Inl e"
    by (cases "first_author paper"; cases "year_of paper") (simp_all add: bibtex_entry_def tw)
  fix fa y assume "first_author paper = Inr fa \<and> year_of paper = Inr y"
  then show "bibtex_entry paper = Inl IndexError"
    by (simp add: bibtex_entry_def tw)
next
  fix papers e assume "paper \<in> set papers \<and> bibtex_entry paper = Inl e"
  then have "\<exists>e'. for_each bibtex_entry papers = Inl e'"
    using for_each_member_Inl [of paper papers bibtex_entry e] by simp
  then obtain e' where "for_each bibtex_entry papers = Inl e'" ..
  then show "\<exists>e'. generate_bibtex papers = Inl e'"
    by (simp add: generate_bibtex_def)
next
  assume "map_of paper ''authors'' = None"
  then show "first_author paper = Inr ''Unknown''"
    by (simp add: first_author_def dict_get_def split_def isspace_def last_item_def)
next
  assume "map_of paper ''title'' = None"
  then show "title_word paper = Inr ''paper''"
    by (simp add: title_word_def dict_get_def split_def isspace_def) code_simp
qed

theorem bibtex_partial_witness:
  "bibtex_entry [(''authors'', PList []), (''title'', PStr ''Sparse regression'')] = Inl IndexError
 \<and> bibtex_entry [(''authors'', PList [PStr ''Ada Lovelace'']), (''title'', PStr ''  '')]
      = Inl IndexError
 \<and> bibtex_entry example_s2_paper = Inl IndexError
 \<and> generate_bibtex [example_arxiv_paper, example_s2_paper] \<noteq> Inr []
 \<and> first_author [] = Inr ''Unknown''
 \<and> title_word [] = Inr ''paper''"
proof -
  let ?p1 = "[(''authors'', PList []), (''title'', PStr ''Sparse regression'')]"
  let ?p2 = "[(''authors'', PList [PStr ''Ada Lovelace'']), (''title'', PStr ''  '')]"
  have 1: "bibtex_entry ?p1 = Inl IndexError"
    using bibtex_partial [of ?p1] by simp
  have 2: "bibtex_entry ?p2 = Inl IndexError"
    using bibtex_partial [of ?p2]
    by (simp add: first_author_def year_of_def dict_get_def split_def isspace_def last_item_def)
  have 3: "bibtex_entry example_s2_paper = Inl IndexError"
    using bibtex_partial [of example_s2_paper]
    by (simp add: example_s2_paper_def first_author_def year_of_def dict_get_def split_def
        isspace_def last_item_def)
  have "\<exists>e'. generate_bibtex [example_arxiv_paper, example_s2_paper] = Inl e'"
    using bibtex_partial [of example_s2_paper] 3 by simp
  then have 4: "generate_bibtex [example_arxiv_paper, example_s2_paper] \<noteq> Inr []"
    by auto
  have 5: "first_author [] = Inr ''Unknown''" and 6: "title_word [] = Inr ''paper''"
    using bibtex_partial [of "[]"] by simp_all
  from 1 2 3 4 5 6 show ?thesis by simp
qed

section \<open>Rendering the document\<close>

subsection \<open>Evaluating \<^verbatim>\<open>str.format\<close> one character at a time\<close>

lemma then_do_map_sum: "then_do m (\<lambda>r. Inr (g r)) = map_sum id g m"
  by (cases m) simp_all

lemma format_plain:
  "c \<noteq> CHR ''{'' \<Longrightarrow> c \<noteq> CHR ''}'' \<Longrightarrow>
   format_from kw None (c # cs) = map_sum id ((#) c) (format_from kw None cs)"
  by (simp add: then_do_map_sum)

lemma format_open2:
  "format_from kw None (CHR ''{'' # CHR ''{'' # ds)
     = map_sum id ((#) CHR ''{'') (format_from kw None ds)"
  by (simp add: then_do_map_sum)

lemma format_close2:
  "format_from kw None (CHR ''}'' # CHR ''}'' # ds)
     = map_sum id ((#) CHR ''}'') (format_from kw None ds)"
  by (simp add: then_do_map_sum)

lemma format_field_begin:
  "d \<noteq> CHR ''{'' \<Longrightarrow>
   format_from kw None (CHR ''{'' # d # ds) = format_from kw (Some []) (d # ds)"
  by simp

lemma format_field_char:
  "c \<noteq> CHR ''}'' \<Longrightarrow>
   format_from kw (Some name) (c # cs) = format_from kw (Some (name @ [c])) cs"
  by simp

lemma format_field_end:
  "format_from kw (Some name) (CHR ''}'' # cs) =
     (case format_field kw name of
        Inl e \<Rightarrow> Inl e
      | Inr v \<Rightarrow> map_sum id ((@) v) (format_from kw None cs))"
  by (simp add: then_do_map_sum split: sum.splits)

lemma format_end: "format_from kw None [] = Inr []"
  by simp

lemmas format_eval = format_end format_plain format_open2 format_close2 format_field_begin
  format_field_char format_field_end

lemma prompt_key_error:
  "format THEORY_ANALYSIS_PROMPT [(''problem'', PStr problem)] = Inl (KeyError ''-1/2'')"
  by (simp add: format_def THEORY_ANALYSIS_PROMPT_def format_field_def format_eval
      del: format_from.simps)

lemma format_template:
  "format template
     [(''date'', PStr today), (''problem'', PStr problem), (''analysis'', analysis),
      (''paper_list'', PStr items)]
   = Inr (filled_template today problem (str analysis) items)"
  by (simp add: format_def template_def filled_template_def format_field_def format_eval BS_def
      del: format_from.simps)

lemma document_content_filled:
  "paper_list papers = Inr items \<Longrightarrow>
   document_content today problem analysis papers
     = Inr (filled_template today (replace (CHR ''_'') [BS, CHR ''_''] problem) (str analysis) items)"
  by (simp add: document_content_def format_template)

subsection \<open>The Related Work list and the fallback analysis\<close>

text \<open>
  What \<^verbatim>\<open>generate_theory_tex\<close> does when it is called with well-typed papers: the list
  has one item for each of the first \<open>min 10 (length papers)\<close> papers, in order, each
  with the escaped title in bold, the first two authors joined by a comma and the link;
  and the fallback analysis of \<^verbatim>\<open>main\<close> carries the three section markers.
\<close>

lemma paper_item_typed:
  assumes "dict_get p ''title'' (PStr ''Unknown'') = PStr t"
    and "dict_get p ''authors'' (PList [PStr ''Unknown'']) = PList (map PStr names)"
  shows "paper_item p = Inr
           (''    '' @ BS # ''item '' @ BS # ''textbf{''
            @ replace (CHR ''&'') [BS, CHR ''&''] (replace (CHR ''_'') [BS, CHR ''_''] t)
            @ ''} by '' @ join '', '' (take 2 names) @ ''. '' @ BS # ''url{''
            @ str (dict_get p ''url'' (PStr '''')) @ ''}\<newline>'')"
  using py_join_strs [of "'', ''" "take 2 names"]
  by (simp add: paper_item_def assms take_map Let_def)

lemma paper_list_first_ten:
  assumes "paper_list papers = Inr items"
  shows "\<exists>rendered. list_all2 (\<lambda>p r. paper_item p = Inr r) (take 10 papers) rendered
           \<and> items = concat rendered \<and> length rendered = min 10 (length papers)"
proof -
  from assms obtain rendered where r: "for_each paper_item (take 10 papers) = Inr rendered"
    and i: "items = concat rendered"
    by (auto simp: paper_list_def then_do_Inr_iff)
  from r have "list_all2 (\<lambda>p r. paper_item p = Inr r) (take 10 papers) rendered"
    by (rule for_each_Inr_all2)
  moreover from r have "length rendered = min 10 (length papers)"
    by (simp add: for_each_Inr_length min.commute)
  ultimately show ?thesis using i by blast
qed

lemma sublist_in_head: "sublist xs ys \<Longrightarrow> sublist xs (ys @ zs)"
  by (meson sublist_append_rightI sublist_order.order.trans)

lemma fallback_markers:
  "sublist (BS # ''section{Problem Formulation}'') fallback_analysis
 \<and> sublist (BS # ''section{Identifiability}'') fallback_analysis
 \<and> sublist (BS # ''section{Convergence Analysis}'') fallback_analysis"
  unfolding fallback_analysis_def
  by (intro conjI sublist_in_head) (simp_all add: fallback_head_def BS_def sublist_code(3))

subsection \<open>Escaping of the problem statement\<close>

text \<open>
  Claim C1 (a defect of the code). The problem statement \<^verbatim>\<open>a_b & c\<close> reaches the
  document with its underscore escaped and its ampersand raw: the text put into both
  \<^verbatim>\<open>{problem}\<close> fields is \<^verbatim>\<open>a\_b & c\<close>. The same text as a paper title has both
  characters escaped.
\<close>

theorem problem_ampersand_left_raw:
  "document_content today ''a_b & c'' analysis []
     = Inr (filled_template today (''a'' @ BS # ''_b & c'') (str analysis) [])
 \<and> paper_item [(''title'', PStr ''a_b & c'')]
     = Inr (''    '' @ BS # ''item '' @ BS # ''textbf{a'' @ BS # ''_b '' @ BS # ''& c} by Unknown. ''
            @ BS # ''url{}\<newline>'')"
proof
  have "paper_list [] = Inr []"
    by (simp add: paper_list_def)
  from document_content_filled [OF this]
  show "document_content today ''a_b & c'' analysis []
     = Inr (filled_template today (''a'' @ BS # ''_b & c'') (str analysis) [])"
    by (simp add: replace_def)
  show "paper_item [(''title'', PStr ''a_b & c'')]
     = Inr (''    '' @ BS # ''item '' @ BS # ''textbf{a'' @ BS # ''_b '' @ BS # ''& c} by Unknown. ''
            @ BS # ''url{}\<newline>'')"
    by (simp add: paper_item_def dict_get_def replace_def py_join_def BS_def)
qed

subsection \<open>The run of the explorer\<close>

text \<open>
  Claim C9 (a defect of the code). Whatever the problem, the environment and the
  responses, \<^verbatim>\<open>main\<close> of \<^verbatim>\<open>theory_explorer.py\<close> without \<^verbatim>\<open>--search-only\<close> raises
  \<^verbatim>\<open>KeyError('-1/2')\<close> when it formats \<^verbatim>\<open>THEORY_ANALYSIS_PROMPT\<close>, whose text
  \<^verbatim>\<open>n^{-1/2}\<close> is read as a field: no request is sent and no file is written, so no
  document with a Related Work list or a fallback analysis comes out of a run.
\<close>

theorem explorer_main_raises_key_error:
  "outcome (theory_explorer_main environ arxiv_response perplexity_response today problem topic
      output False) = Inl (KeyError ''-1/2'')
 \<and> files (theory_explorer_main environ arxiv_response perplexity_response today problem topic
      output False) = []
 \<and> requests (theory_explorer_main environ arxiv_response perplexity_response today problem topic
      output False) = []"
  by (simp add: theory_explorer_main_def prompt_key_error split: prod.splits)

end
